theory Spec2Isabelle
  imports Complex_Main
begin

section \<open>Data model of \<^verbatim>\<open>service/src/index.ts\<close>\<close>

text \<open>
  The router of \<^verbatim>\<open>index.ts\<close> works on the documents of \<^verbatim>\<open>./storage/model\<close>
  (\<^verbatim>\<open>ChatInfo\<close>, \<^verbatim>\<open>ChatOptions\<close>, \<^verbatim>\<open>UsageResponse\<close>, \<^verbatim>\<open>Status\<close>) and on
  the \<^verbatim>\<open>ChatMessage\<close> of \<^verbatim>\<open>./chatgpt\<close>. A JavaScript value that the handlers treat
  alike when it is \<^verbatim>\<open>undefined\<close> and when it is \<^verbatim>\<open>null\<close> (a truthiness test, a
  copy, \<^verbatim>\<open>== null\<close>, \<^verbatim>\<open>?.\<close>, \<^verbatim>\<open>||\<close>) is an \<open>option\<close>; one that they compare
  with \<^verbatim>\<open>=== undefined\<close> is a \<open>js\<close>, which keeps the two apart; numbers that the
  handlers only test for truthiness and copy are \<open>int\<close>.
\<close>

datatype 'a js = Undefined | Null | Val 'a

type_synonym object_id = nat

record UsageResponse =
  prompt_tokens :: int
  completion_tokens :: int
  total_tokens :: int
  estimated :: bool

text \<open>\<^verbatim>\<open>ChatOptions\<close>: the per-call options stored with a turn, with the usage
  counters that \<^verbatim>\<open>updateChat\<close> writes into them.\<close>

record ChatOptions =
  o_parentMessageId :: "string option"
  o_messageId :: "string option"
  o_conversationId :: "string option"
  o_prompt_tokens :: "int option"
  o_completion_tokens :: "int option"
  o_total_tokens :: "int option"
  o_estimated :: "bool option"

text \<open>An element of \<^verbatim>\<open>previousResponse\<close>: \<^verbatim>\<open>{ response, options }\<close>.\<close>

record previousResponse_entry =
  p_response :: "string option"
  p_options :: ChatOptions

text \<open>The deletion-state tag of a turn. \<^verbatim>\<open>Status\<close> is declared in
  \<^verbatim>\<open>./storage/model\<close>; the handlers of this file name \<open>InversionDeleted\<close> (prompt
  deleted) and \<open>ResponseDeleted\<close> for turns and \<open>Normal\<close>, \<open>PreVerify\<close> and
  \<open>AdminVerify\<close> for users; \<open>Deleted\<close> is the data model's "both deleted".\<close>

datatype Status = Normal | Deleted | InversionDeleted | ResponseDeleted | PreVerify | AdminVerify

record ChatInfo =
  c_id :: object_id
  c_roomId :: nat
  c_uuid :: nat
  c_dateTime :: nat
  c_prompt :: string
  c_response :: "string option"
  c_status :: Status
  c_options :: ChatOptions
  c_previousResponse :: "previousResponse_entry list js"

subsection \<open>JavaScript truthiness\<close>

text \<open>\<^verbatim>\<open>x ? a : b\<close> and \<^verbatim>\<open>x || null\<close> test truthiness: a number is truthy when it
  is defined and not 0, a string when it is defined and not empty, a boolean when it
  is \<^verbatim>\<open>true\<close>.\<close>

definition truthy_num :: "int option \<Rightarrow> bool" where
  "truthy_num x = (case x of None \<Rightarrow> False | Some n \<Rightarrow> n \<noteq> 0)"

definition truthy_str :: "string option \<Rightarrow> bool" where
  "truthy_str x = (case x of None \<Rightarrow> False | Some s \<Rightarrow> s \<noteq> [])"

definition truthy_bool :: "bool option \<Rightarrow> bool" where
  "truthy_bool x = (case x of None \<Rightarrow> False | Some b \<Rightarrow> b)"

text \<open>\<^verbatim>\<open>x || null\<close>.\<close>

definition num_or_null :: "int option \<Rightarrow> int option" where
  "num_or_null x = (if truthy_num x then x else None)"

definition bool_or_null :: "bool option \<Rightarrow> bool option" where
  "bool_or_null x = (if truthy_bool x then x else None)"

section \<open>\<^verbatim>\<open>GET /chat-history\<close> and \<^verbatim>\<open>GET /chat-response-history\<close>\<close>

text \<open>The usage object both handlers attach to a response-side entry:
  \<^verbatim>\<open>options.completion_tokens ? { completion_tokens: ... || null, ... } : undefined\<close>.\<close>

record usage_view =
  v_completion_tokens :: "int option"
  v_prompt_tokens :: "int option"
  v_total_tokens :: "int option"
  v_estimated :: "bool option"

definition usage_of_options :: "ChatOptions \<Rightarrow> usage_view option" where
  "usage_of_options opts =
     (if truthy_num (o_completion_tokens opts)
      then Some \<lparr> v_completion_tokens = num_or_null (o_completion_tokens opts),
                  v_prompt_tokens = num_or_null (o_prompt_tokens opts),
                  v_total_tokens = num_or_null (o_total_tokens opts),
                  v_estimated = bool_or_null (o_estimated opts) \<rparr>
      else None)"

text \<open>The entries pushed to \<^verbatim>\<open>result\<close>. The prompt-side entry has
  \<^verbatim>\<open>inversion: true\<close>, no conversation options and no usage; the response-side
  entry has \<^verbatim>\<open>inversion: false\<close>, \<^verbatim>\<open>loading: false\<close>, the response count and
  the ids of the stored options. \<^verbatim>\<open>error\<close> is \<^verbatim>\<open>false\<close> in both; \<open>h_dateTime\<close> is the
  stored time, which the handler sends as \<^verbatim>\<open>new Date(c.dateTime).toLocaleString()\<close>.\<close>

record conversationOptions =
  co_parentMessageId :: "string option"
  co_conversationId :: "string option"

record history_entry =
  h_uuid :: nat
  h_dateTime :: nat
  h_text :: "string option"
  h_inversion :: bool
  h_error :: bool
  h_loading :: "bool option"
  h_responseCount :: "nat option"
  h_conversationOptions :: "conversationOptions option"
  h_request_prompt :: string
  h_request_parentMessageId :: "string option"
  h_request_options :: "conversationOptions option"
  h_usage :: "usage_view option"

definition prompt_entry :: "ChatInfo \<Rightarrow> history_entry" where
  "prompt_entry c =
     \<lparr> h_uuid = c_uuid c, h_dateTime = c_dateTime c, h_text = Some (c_prompt c),
       h_inversion = True, h_error = False, h_loading = None, h_responseCount = None,
       h_conversationOptions = None, h_request_prompt = c_prompt c,
       h_request_parentMessageId = None, h_request_options = None, h_usage = None \<rparr>"

text \<open>\<^verbatim>\<open>(c.previousResponse?.length ?? 0) + 1\<close>.\<close>

definition responseCount :: "ChatInfo \<Rightarrow> nat" where
  "responseCount c =
     (case c_previousResponse c of Val ps \<Rightarrow> length ps | Undefined \<Rightarrow> 0 | Null \<Rightarrow> 0) + 1"

text \<open>The response-side entry of turn \<open>c\<close> showing the response text \<open>txt\<close> with the
  options \<open>opts\<close>: the turn's own in \<^verbatim>\<open>/chat-history\<close>, the selected branch's in
  \<^verbatim>\<open>/chat-response-history\<close>.\<close>

definition response_entry :: "ChatInfo \<Rightarrow> string option \<Rightarrow> ChatOptions \<Rightarrow> history_entry" where
  "response_entry c txt opts =
     \<lparr> h_uuid = c_uuid c, h_dateTime = c_dateTime c, h_text = txt,
       h_inversion = False, h_error = False, h_loading = Some False,
       h_responseCount = Some (responseCount c),
       h_conversationOptions =
         Some \<lparr> co_parentMessageId = o_messageId opts, co_conversationId = o_conversationId opts \<rparr>,
       h_request_prompt = c_prompt c,
       h_request_parentMessageId = o_parentMessageId opts,
       h_request_options =
         Some \<lparr> co_parentMessageId = o_messageId opts, co_conversationId = o_conversationId opts \<rparr>,
       h_usage = usage_of_options opts \<rparr>"

text \<open>The body of \<^verbatim>\<open>chats.forEach\<close> in \<^verbatim>\<open>/chat-history\<close>: what one turn pushes.\<close>

definition history_entries :: "ChatInfo \<Rightarrow> history_entry list" where
  "history_entries c =
     (if c_status c \<noteq> InversionDeleted then [prompt_entry c] else []) @
     (if c_status c \<noteq> ResponseDeleted then [response_entry c (c_response c) (c_options c)] else [])"

text \<open>A reply sent with \<^verbatim>\<open>res.send({ status, message, data })\<close>.\<close>

datatype 'a reply = Success 'a | Fail string

text \<open>\<^verbatim>\<open>GET /chat-history\<close>. \<open>roomId\<close> is \<^verbatim>\<open>+req.query.roomId\<close> (falsy when 0),
  \<open>roomExists\<close> the answer of \<^verbatim>\<open>existsChatRoom(userId, roomId)\<close>, \<open>chats\<close> the rows
  \<^verbatim>\<open>getChats\<close> returned. An unknown room is answered with an empty list.\<close>

definition chat_history :: "nat \<Rightarrow> bool \<Rightarrow> ChatInfo list \<Rightarrow> history_entry list reply" where
  "chat_history roomId roomExists chats =
     (if roomId = 0 \<or> \<not> roomExists then Success []
      else Success (concat (map history_entries chats)))"

text \<open>The data of a \<^verbatim>\<open>/chat-response-history\<close> reply: the empty array sent for an
  unknown room, or the entry of the selected response.\<close>

datatype history_data = NoEntries | Entry history_entry

text \<open>\<^verbatim>\<open>GET /chat-response-history\<close>, for a natural-number \<open>index\<close>. \<open>roomId\<close> and
  \<open>roomExists\<close> are as in \<^verbatim>\<open>/chat-history\<close>; \<open>chat\<close> is what
  \<^verbatim>\<open>getChat(roomId, uuid)\<close> returned. Reading \<^verbatim>\<open>chat.previousResponse\<close> of a turn that
  was not found, or \<^verbatim>\<open>.length\<close> of a \<^verbatim>\<open>null\<close> branch list, raises a TypeError, which
  the catch block answers with \<^verbatim>\<open>Load error\<close> (and \<^verbatim>\<open>data: null\<close>); an \<^verbatim>\<open>undefined\<close>
  branch list and an index beyond the list are answered with \<^verbatim>\<open>Error\<close> (and
  \<^verbatim>\<open>data: []\<close>). The selected response is the turn itself
  when \<^verbatim>\<open>index >= chat.previousResponse.length\<close>, the branch
  \<^verbatim>\<open>chat.previousResponse[index]\<close> otherwise.\<close>

definition chat_response_history :: "nat \<Rightarrow> bool \<Rightarrow> ChatInfo option \<Rightarrow> nat \<Rightarrow> history_data reply" where
  "chat_response_history roomId roomExists chat index =
     (if roomId = 0 \<or> \<not> roomExists then Success NoEntries
      else
        (case chat of
           None \<Rightarrow> Fail ''Load error''
         | Some c \<Rightarrow>
             (case c_previousResponse c of
                Undefined \<Rightarrow> Fail ''Error''
              | Null \<Rightarrow> Fail ''Load error''
              | Val ps \<Rightarrow>
                  if length ps < index then Fail ''Error''
                  else if index \<ge> length ps
                    then Success (Entry (response_entry c (c_response c) (c_options c)))
                    else Success (Entry (response_entry c (p_response (ps ! index))
                                           (p_options (ps ! index)))))))"

section \<open>The store behind \<^verbatim>\<open>./storage/mongo\<close>\<close>

text \<open>
  The handlers reach the conversation store through \<^verbatim>\<open>getChat\<close>, \<^verbatim>\<open>insertChat\<close>,
  \<^verbatim>\<open>updateChat\<close> and \<^verbatim>\<open>insertChatUsage\<close>, imported from \<^verbatim>\<open>./storage/mongo\<close>.
  The store is the list of turn rows and the list of usage rows; \<open>s_nextId\<close> is the
  next fresh \<^verbatim>\<open>_id\<close>, \<open>s_now\<close> the clock, and \<open>s_abortMap\<close> the cancellation
  registry of \<^verbatim>\<open>./chatgpt\<close>: the in-flight turn of each user and whether it has been
  signalled. These four calls always answer here, as in the spec's signatures. A
  rejection of one of them inside the \<^verbatim>\<open>try\<close> of \<^verbatim>\<open>/chat-process\<close> would reach its
  catch block as the rejections of \<^verbatim>\<open>getRandomApiKey\<close> and \<^verbatim>\<open>chatReplyProcess\<close> do, and
  one inside the \<^verbatim>\<open>finally\<close> would be logged by the inner catch. \<^verbatim>\<open>getChatRoom\<close> is
  awaited before the \<^verbatim>\<open>try\<close>, so its rejection is an outcome of its own
  (\<open>a_room\<close> below).
\<close>

record ChatUsage =
  u_userId :: string
  u_roomId :: nat
  u_chatId :: object_id
  u_messageId :: "string option"
  u_promptTokens :: int
  u_completionTokens :: int
  u_totalTokens :: int
  u_estimated :: bool

record store =
  s_chats :: "ChatInfo list"
  s_usages :: "ChatUsage list"
  s_nextId :: object_id
  s_now :: nat
  s_abortMap :: "string \<Rightarrow> (object_id \<times> bool) option"

text \<open>Modelled from the spec: \<^verbatim>\<open>getChat\<close> is not in this file. It is the spec's
  \<^verbatim>\<open>getTurn(roomId, seq) -> Turn | absent\<close>: the turn of that room with that
  sequence id, if there is one.\<close>

definition getChat :: "nat \<Rightarrow> nat \<Rightarrow> ChatInfo list \<Rightarrow> ChatInfo option" where
  "getChat roomId uuid chats = find (\<lambda>c. c_roomId c = roomId \<and> c_uuid c = uuid) chats"

text \<open>Modelled from the spec: \<^verbatim>\<open>insertChat\<close> is not in this file. It is the spec's
  \<^verbatim>\<open>createTurn(seq, prompt, roomId, options) -> Turn\<close>: a new row with a fresh id,
  the prompt and the call options, no response yet and no branch list.\<close>

definition new_chat :: "object_id \<Rightarrow> nat \<Rightarrow> nat \<Rightarrow> string \<Rightarrow> nat \<Rightarrow> ChatOptions \<Rightarrow> ChatInfo" where
  "new_chat i now uuid prompt roomId options =
     \<lparr> c_id = i, c_roomId = roomId, c_uuid = uuid, c_dateTime = now, c_prompt = prompt,
       c_response = None, c_status = Normal, c_options = options, c_previousResponse = Undefined \<rparr>"

text \<open>Modelled from the spec: \<^verbatim>\<open>updateChat\<close> is not in this file. It is the spec's
  \<^verbatim>\<open>updateTurn(turnId, text, backendMessageId, backendConversationId, usage,
  branches?) -> void\<close>: it overwrites the response text, the two backend ids and the
  usage counters of the row with that id (a null usage leaves no counters), and
  replaces the branch list only when one is passed. An id that is absent addresses no
  row.\<close>

definition update_row ::
  "string option \<Rightarrow> string option \<Rightarrow> string option \<Rightarrow> UsageResponse option \<Rightarrow>
   previousResponse_entry list option \<Rightarrow> ChatInfo \<Rightarrow> ChatInfo" where
  "update_row response messageId conversationId usage previousResponse c =
     c \<lparr> c_response := response,
         c_options := (c_options c)
           \<lparr> o_messageId := messageId,
             o_conversationId := conversationId,
             o_prompt_tokens := map_option prompt_tokens usage,
             o_completion_tokens := map_option completion_tokens usage,
             o_total_tokens := map_option total_tokens usage,
             o_estimated := map_option estimated usage \<rparr>,
         c_previousResponse :=
           (case previousResponse of None \<Rightarrow> c_previousResponse c | Some ps \<Rightarrow> Val ps) \<rparr>"

definition updateChat ::
  "object_id option \<Rightarrow> string option \<Rightarrow> string option \<Rightarrow> string option \<Rightarrow>
   UsageResponse option \<Rightarrow> previousResponse_entry list option \<Rightarrow> ChatInfo list \<Rightarrow> ChatInfo list" where
  "updateChat chatId response messageId conversationId usage previousResponse chats =
     map (\<lambda>c. if Some (c_id c) = chatId
              then update_row response messageId conversationId usage previousResponse c
              else c) chats"

text \<open>Modelled from the spec: \<^verbatim>\<open>insertChatUsage\<close> is not in this file. It is the
  spec's \<^verbatim>\<open>insertUsage(userId, roomId, turnId, backendMessageId, usage) -> void\<close>:
  one appended row linking user, room, turn, upstream message id and the counters.\<close>

definition insertChatUsage ::
  "string \<Rightarrow> nat \<Rightarrow> object_id \<Rightarrow> string option \<Rightarrow> UsageResponse \<Rightarrow> ChatUsage list \<Rightarrow> ChatUsage list" where
  "insertChatUsage userId roomId chatId messageId usage rows =
     rows @ [\<lparr> u_userId = userId, u_roomId = roomId, u_chatId = chatId, u_messageId = messageId,
               u_promptTokens = prompt_tokens usage,
               u_completionTokens = completion_tokens usage,
               u_totalTokens = total_tokens usage,
               u_estimated = estimated usage \<rparr>]"

text \<open>Modelled from the spec: \<^verbatim>\<open>isNotEmptyString\<close> of \<^verbatim>\<open>./utils/is\<close> is not in this
  file. A value is a non-empty string when it is a string and has a character.\<close>

definition isNotEmptyString :: "string option \<Rightarrow> bool" where
  "isNotEmptyString x = (case x of None \<Rightarrow> False | Some s \<Rightarrow> s \<noteq> [])"

section \<open>What a request does: the response written and the collaborators called\<close>

text \<open>\<^verbatim>\<open>ChatMessage\<close> of \<^verbatim>\<open>./chatgpt\<close>: a partial event or the final data of the
  completion backend. \<open>d_finish_reasons\<close> lists \<^verbatim>\<open>detail.choices[i].finish_reason\<close>.\<close>

record ChatDetail =
  d_finish_reasons :: "string option list"
  d_usage :: "UsageResponse option"

record ChatMessage =
  m_id :: "string option"
  m_conversationId :: "string option"
  m_text :: "string option"
  m_detail :: "ChatDetail option"

text \<open>The object \<^verbatim>\<open>chuck\<close> that the \<^verbatim>\<open>process\<close> callback writes for a partial
  event: \<^verbatim>\<open>finish_reason\<close> is copied from the first choice when the event has a
  detail with a choice, and stays \<^verbatim>\<open>undefined\<close> otherwise.\<close>

record chuck =
  k_id :: "string option"
  k_conversationId :: "string option"
  k_text :: "string option"
  k_finish_reason :: "string option"

definition chuck_of :: "ChatMessage \<Rightarrow> chuck" where
  "chuck_of chat =
     \<lparr> k_id = m_id chat, k_conversationId = m_conversationId chat, k_text = m_text chat,
       k_finish_reason =
         (case m_detail chat of
            None \<Rightarrow> None
          | Some d \<Rightarrow> (case d_finish_reasons d of [] \<Rightarrow> None | r # _ \<Rightarrow> r)) \<rparr>"

text \<open>A JavaScript exception: a \<^verbatim>\<open>TypeError\<close> raised by a property read on
  \<^verbatim>\<open>null\<close> or \<^verbatim>\<open>undefined\<close>, or the error a collaborator throws or rejects with,
  with its \<^verbatim>\<open>error?.message\<close>.\<close>

datatype js_error = TypeError | Rejection "string option"

datatype 'a outcome = Returns 'a | Throws js_error

text \<open>What is written to the connection. A chunk is a payload and whether
  \<^verbatim>\<open>\n\<close> precedes it.
  \<^item> \<open>PartialJson\<close>: \<^verbatim>\<open>JSON.stringify(chuck)\<close> of the \<^verbatim>\<open>process\<close> callback;
  \<^item> \<open>DataJson\<close>: \<^verbatim>\<open>JSON.stringify(result.data)\<close>, the whole response with its usage;
    for \<^verbatim>\<open>null\<close> data the text written is \<^verbatim>\<open>null\<close>, for \<^verbatim>\<open>undefined\<close> data it is
    \<^verbatim>\<open>undefined\<close>;
  \<^item> \<open>ErrorJson\<close>: \<^verbatim>\<open>JSON.stringify({ message: error?.message })\<close> of the catch block;
  \<^item> \<open>SendJson status message\<close>: \<^verbatim>\<open>res.send({ status, message, data: null })\<close>.\<close>

datatype payload =
    PartialJson chuck
  | DataJson "ChatMessage js"
  | ErrorJson js_error
  | SendJson string string

type_synonym chunk = "bool \<times> payload"

text \<open>\<^verbatim>\<open>RequestOptions\<close>: the argument of \<^verbatim>\<open>chatReplyProcess\<close> (the \<^verbatim>\<open>process\<close>
  callback apart).\<close>

record RequestOptions =
  q_message :: string
  q_lastContext :: ChatOptions
  q_systemMessage :: "string option"
  q_temperature :: "rat option"
  q_top_p :: "rat option"
  q_chatModel :: string
  q_key :: "string option"
  q_userId :: string
  q_messageId :: object_id

text \<open>The calls a handler makes to its collaborators, in order.\<close>

datatype call =
    ContainsSensitiveWords string
  | GetChat nat nat
  | InsertChat nat string nat ChatOptions
  | GetRandomApiKey string
  | ChatReplyProcess RequestOptions
  | AbortChatProcess string
  | UpdateChat "object_id option" "string option" "string option" "string option"
      "UsageResponse option" "previousResponse_entry list option"
  | InsertChatUsage string nat object_id "string option" UsageResponse

text \<open>Lines of the console: the \<^verbatim>\<open>Unable to get chat room\<close> error with the user
  and room ids, and an exception logged by the inner catch of the finally block.\<close>

datatype console_line = UnableToGetChatRoom string nat | Logged js_error

text \<open>The state of one request: the store, the response written so far (\<open>r_body\<close>,
  \<open>r_ended\<close>), the collaborator calls made, the console lines, and the exception with
  which the handler's promise rejected, if it did (\<open>r_rejected\<close>): nothing catches it.\<close>

record run =
  r_chats :: "ChatInfo list"
  r_usages :: "ChatUsage list"
  r_nextId :: object_id
  r_now :: nat
  r_abortMap :: "string \<Rightarrow> (object_id \<times> bool) option"
  r_body :: "chunk list"
  r_ended :: bool
  r_calls :: "call list"
  r_console :: "console_line list"
  r_rejected :: "js_error option"

text \<open>A request starts on the store with a response of its own, nothing written.\<close>

definition start :: "store \<Rightarrow> run" where
  "start s =
     \<lparr> r_chats = s_chats s, r_usages = s_usages s, r_nextId = s_nextId s, r_now = s_now s,
       r_abortMap = s_abortMap s, r_body = [], r_ended = False, r_calls = [], r_console = [],
       r_rejected = None \<rparr>"

definition store_of :: "run \<Rightarrow> store" where
  "store_of r =
     \<lparr> s_chats = r_chats r, s_usages = r_usages r, s_nextId = r_nextId r, s_now = r_now r,
       s_abortMap = r_abortMap r \<rparr>"

definition called :: "call \<Rightarrow> run \<Rightarrow> run" where
  "called c r = r \<lparr> r_calls := r_calls r @ [c] \<rparr>"

definition res_write :: "chunk list \<Rightarrow> run \<Rightarrow> run" where
  "res_write cs r = r \<lparr> r_body := r_body r @ cs \<rparr>"

text \<open>\<^verbatim>\<open>res.send(body)\<close> writes the body and ends the response.\<close>

definition res_send :: "payload \<Rightarrow> run \<Rightarrow> run" where
  "res_send p r = r \<lparr> r_body := r_body r @ [(False, p)], r_ended := True \<rparr>"

definition res_end :: "run \<Rightarrow> run" where
  "res_end r = r \<lparr> r_ended := True \<rparr>"

definition console :: "console_line \<Rightarrow> run \<Rightarrow> run" where
  "console l r = r \<lparr> r_console := r_console r @ [l] \<rparr>"

text \<open>The store calls, each recorded and applied to the store.\<close>

definition do_getChat :: "nat \<Rightarrow> nat \<Rightarrow> run \<Rightarrow> ChatInfo option \<times> run" where
  "do_getChat roomId uuid r = (getChat roomId uuid (r_chats r), called (GetChat roomId uuid) r)"

definition do_insertChat :: "nat \<Rightarrow> string \<Rightarrow> nat \<Rightarrow> ChatOptions \<Rightarrow> run \<Rightarrow> ChatInfo option \<times> run" where
  "do_insertChat uuid prompt roomId options r =
     (let row = new_chat (r_nextId r) (r_now r) uuid prompt roomId options
      in (Some row,
          called (InsertChat uuid prompt roomId options)
            (r \<lparr> r_chats := r_chats r @ [row], r_nextId := Suc (r_nextId r) \<rparr>)))"

definition do_updateChat ::
  "object_id option \<Rightarrow> string option \<Rightarrow> string option \<Rightarrow> string option \<Rightarrow>
   UsageResponse option \<Rightarrow> previousResponse_entry list option \<Rightarrow> run \<Rightarrow> run" where
  "do_updateChat chatId response messageId conversationId usage previousResponse r =
     called (UpdateChat chatId response messageId conversationId usage previousResponse)
       (r \<lparr> r_chats :=
              updateChat chatId response messageId conversationId usage previousResponse (r_chats r) \<rparr>)"

definition do_insertChatUsage ::
  "string \<Rightarrow> nat \<Rightarrow> object_id \<Rightarrow> string option \<Rightarrow> UsageResponse \<Rightarrow> run \<Rightarrow> run" where
  "do_insertChatUsage userId roomId chatId messageId usage r =
     called (InsertChatUsage userId roomId chatId messageId usage)
       (r \<lparr> r_usages := insertChatUsage userId roomId chatId messageId usage (r_usages r) \<rparr>)"

section \<open>\<^verbatim>\<open>POST /chat-process\<close>\<close>

text \<open>\<^verbatim>\<open>RequestProps\<close>: the request body.\<close>

record RequestProps =
  b_roomId :: nat
  b_uuid :: nat
  b_regenerate :: bool
  b_prompt :: string
  b_options :: ChatOptions
  b_systemMessage :: "string option"
  b_temperature :: "rat option"
  b_top_p :: "rat option"

record ChatRoom =
  room_prompt :: "string option"
  room_usingContext :: "bool option"

datatype UserRole = Admin | OtherRole nat

record UserInfo =
  user_roles :: "UserRole list"
  user_chatModel :: string

record AuditConfig =
  ac_enabled :: bool
  ac_customizeEnabled :: bool

text \<open>What \<^verbatim>\<open>chatReplyProcess\<close> resolves with: \<^verbatim>\<open>{ status, message, data }\<close>.\<close>

record ReplyResult =
  rr_status :: string
  rr_message :: "string option"
  rr_data :: "ChatMessage js"

text \<open>
  The collaborators of the handler are imported from other files; what they answer to
  this request is a parameter of the model:
  \<^item> \<open>a_room\<close>: \<^verbatim>\<open>getChatRoom(userId, roomId)\<close>, which returns the room, or
    \<^verbatim>\<open>null\<close> when the room does not exist or belongs to another user, or rejects;
  \<^item> \<open>a_auditConfig\<close>: \<^verbatim>\<open>config.auditConfig\<close> of \<^verbatim>\<open>getCacheConfig()\<close>;
  \<^item> \<open>a_user\<close>: \<^verbatim>\<open>getUserById(userId)\<close>;
  \<^item> \<open>a_sensitive\<close>: \<^verbatim>\<open>containsSensitiveWords(config.auditConfig, prompt)\<close>;
  \<^item> \<open>a_key\<close>: \<^verbatim>\<open>getRandomApiKey(user, user.config.chatModel)\<close>, which returns a
    key, returns none, or throws;
  \<^item> \<open>a_partials\<close>: the partial events \<^verbatim>\<open>chatReplyProcess\<close> passes to
    \<^verbatim>\<open>process\<close>, in order;
  \<^item> \<open>a_result\<close>: how \<^verbatim>\<open>await chatReplyProcess(...)\<close> ends: it resolves with a
    result (or with \<^verbatim>\<open>null\<close>), or it rejects;
  \<^item> \<open>a_userObjectId\<close>: \<^verbatim>\<open>new ObjectId(req.headers.userId)\<close>. The constructor belongs
    to the database driver, not to this repository: it returns the id of the user (here
    as its string) for a well-formed id, such as the 24 hexadecimal digits the store
    issues, and throws for a string it refuses.
  \<^verbatim>\<open>chatReplyProcess\<close> gets \<^verbatim>\<open>userId\<close> and \<^verbatim>\<open>messageId\<close> and keeps the
  cancellation registry itself, for the time of the call; the handler never touches it.
\<close>

record answers =
  a_room :: "ChatRoom option outcome"
  a_auditConfig :: AuditConfig
  a_user :: "UserInfo option"
  a_sensitive :: bool
  a_key :: "string option outcome"
  a_partials :: "ChatMessage list"
  a_result :: "ReplyResult option outcome"
  a_userObjectId :: "string outcome"

text \<open>The message of the audit failure, \<^verbatim>\<open>'... | Contains sensitive words'\<close>: its
  first five characters are Chinese, written here as their UTF-8 bytes.\<close>

definition sensitive_message :: string where
  "sensitive_message =
     [CHR 0xE5, CHR 0x90, CHR 0xAB, CHR 0xE6, CHR 0x9C, CHR 0x89, CHR 0xE6, CHR 0x95, CHR 0x8F,
      CHR 0xE6, CHR 0x84, CHR 0x9F, CHR 0xE8, CHR 0xAF, CHR 0x8D] @ '' | Contains sensitive words''"

text \<open>Lines 384 to 388: the room's prompt replaces the caller's \<^verbatim>\<open>systemMessage\<close>
  when the room was found and its prompt is a non-empty string.\<close>

definition resolve_systemMessage :: "ChatRoom option \<Rightarrow> string option \<Rightarrow> string option" where
  "resolve_systemMessage room systemMessage =
     (case room of
        None \<Rightarrow> systemMessage
      | Some rm \<Rightarrow> if isNotEmptyString (room_prompt rm) then room_prompt rm else systemMessage)"

text \<open>The variables \<^verbatim>\<open>lastResponse\<close>, \<^verbatim>\<open>result\<close> and \<^verbatim>\<open>message\<close>, declared before
  the \<^verbatim>\<open>try\<close> and read by the \<^verbatim>\<open>finally\<close>; \<open>None\<close> is \<^verbatim>\<open>undefined\<close> or
  \<^verbatim>\<open>null\<close>.\<close>

record locals =
  l_lastResponse :: "ChatMessage option"
  l_result :: "ReplyResult option"
  l_message :: "ChatInfo option"

definition no_locals :: locals where
  "no_locals = \<lparr> l_lastResponse = None, l_result = None, l_message = None \<rparr>"

text \<open>How the \<^verbatim>\<open>try\<close> block is left: at its end, by \<^verbatim>\<open>return\<close>, or by an
  exception.\<close>

datatype completion = Completed | Returned | Thrown js_error

definition audit_on :: "AuditConfig \<Rightarrow> bool" where
  "audit_on cfg = (ac_enabled cfg \<or> ac_customizeEnabled cfg)"

text \<open>Lines 403 to 405: \<^verbatim>\<open>message = regenerate ? await getChat(roomId, uuid) :
  await insertChat(uuid, prompt, roomId, options)\<close>.\<close>

definition obtain_message :: "RequestProps \<Rightarrow> run \<Rightarrow> ChatInfo option \<times> run" where
  "obtain_message b r =
     (if b_regenerate b then do_getChat (b_roomId b) (b_uuid b) r
      else do_insertChat (b_uuid b) (b_prompt b) (b_roomId b) (b_options b) r)"

text \<open>The \<^verbatim>\<open>process\<close> callback writes the first chunk bare and every later one after
  \<^verbatim>\<open>\n\<close>, and keeps the event in \<^verbatim>\<open>lastResponse\<close>.\<close>

definition partial_chunks :: "ChatMessage list \<Rightarrow> chunk list" where
  "partial_chunks ps =
     (case ps of
        [] \<Rightarrow> []
      | p # rest \<Rightarrow> (False, PartialJson (chuck_of p)) # map (\<lambda>q. (True, PartialJson (chuck_of q))) rest)"

definition last_partial :: "ChatMessage list \<Rightarrow> ChatMessage option" where
  "last_partial ps = (if ps = [] then None else Some (last ps))"

text \<open>Lines 407 to 439: the call of \<^verbatim>\<open>chatReplyProcess\<close> and the write of the whole
  response. Reading \<^verbatim>\<open>result.data\<close> of a \<^verbatim>\<open>null\<close> result raises a TypeError.\<close>

definition stream :: "RequestOptions \<Rightarrow> answers \<Rightarrow> ChatInfo \<Rightarrow> run \<Rightarrow> completion \<times> locals \<times> run" where
  "stream opts ans message r =
     (let r1 = res_write (partial_chunks (a_partials ans)) (called (ChatReplyProcess opts) r);
          l = \<lparr> l_lastResponse = last_partial (a_partials ans), l_result = None,
                l_message = Some message \<rparr>
      in case a_result ans of
           Throws e \<Rightarrow> (Thrown e, l, r1)
         | Returns None \<Rightarrow> (Thrown TypeError, l, r1)
         | Returns (Some res) \<Rightarrow>
             (Completed, l \<lparr> l_result := Some res \<rparr>, res_write [(True, DataJson (rr_data res))] r1))"

text \<open>Lines 403 to 437 for a user that was found: the turn is loaded or inserted, then
  the argument of \<^verbatim>\<open>chatReplyProcess\<close> is built, which selects the key and then
  reads \<^verbatim>\<open>message._id\<close> (a TypeError when \<^verbatim>\<open>getChat\<close> found no turn).\<close>

definition proceed ::
  "RequestProps \<Rightarrow> string \<Rightarrow> string option \<Rightarrow> answers \<Rightarrow> UserInfo \<Rightarrow> run \<Rightarrow> completion \<times> locals \<times> run" where
  "proceed b userId systemMessage ans user r =
     (let (message, r1) = obtain_message b r;
          r2 = called (GetRandomApiKey (user_chatModel user)) r1
      in case a_key ans of
           Throws e \<Rightarrow> (Thrown e, no_locals \<lparr> l_message := message \<rparr>, r2)
         | Returns key \<Rightarrow>
             (case message of
                None \<Rightarrow> (Thrown TypeError, no_locals, r2)
              | Some m \<Rightarrow>
                  stream \<lparr> q_message = b_prompt b, q_lastContext = b_options b,
                           q_systemMessage = systemMessage, q_temperature = b_temperature b,
                           q_top_p = b_top_p b, q_chatModel = user_chatModel user, q_key = key,
                           q_userId = userId, q_messageId = c_id m \<rparr> ans m r2))"

text \<open>The \<^verbatim>\<open>try\<close> block, lines 392 to 440. Without a user, \<^verbatim>\<open>user.roles\<close> raises a
  TypeError when auditing is on, and \<^verbatim>\<open>user.config\<close> does after the turn was
  loaded or inserted when it is off. \<^verbatim>\<open>containsSensitiveWords\<close> is called only for
  a user who is not Admin (\<^verbatim>\<open>&&\<close> short-circuits).\<close>

definition chat_process_try ::
  "RequestProps \<Rightarrow> string \<Rightarrow> string option \<Rightarrow> answers \<Rightarrow> run \<Rightarrow> completion \<times> locals \<times> run" where
  "chat_process_try b userId systemMessage ans r =
     (case a_user ans of
        None \<Rightarrow>
          if audit_on (a_auditConfig ans) then (Thrown TypeError, no_locals, r)
          else (let (message, r1) = obtain_message b r
                in (Thrown TypeError, no_locals \<lparr> l_message := message \<rparr>, r1))
      | Some user \<Rightarrow>
          if audit_on (a_auditConfig ans) \<and> Admin \<notin> set (user_roles user)
          then (let r1 = called (ContainsSensitiveWords (b_prompt b)) r
                in if a_sensitive ans
                   then (Returned, no_locals, res_send (SendJson ''Fail'' sensitive_message) r1)
                   else proceed b userId systemMessage ans user r1)
          else proceed b userId systemMessage ans user r)"

text \<open>The \<^verbatim>\<open>catch\<close> block, lines 441 to 443, writes the error's message, with no
  \<^verbatim>\<open>\n\<close> before it.\<close>

definition chat_process_catch :: "completion \<Rightarrow> run \<Rightarrow> run" where
  "chat_process_catch c r =
     (case c of
        Thrown e \<Rightarrow> res_write [(False, ErrorJson e)] r
      | Completed \<Rightarrow> r
      | Returned \<Rightarrow> r)"

text \<open>Lines 447 to 451: the \<^verbatim>\<open>result.data\<close> that is persisted. Without a result it is
  \<^verbatim>\<open>lastResponse\<close> (\<^verbatim>\<open>undefined\<close> when no partial event came); for a result whose
  status is not \<^verbatim>\<open>'Success'\<close> it is \<^verbatim>\<open>{ text: result.message }\<close>; for a successful
  result it is its data.\<close>

definition reconcile :: "locals \<Rightarrow> ChatMessage js" where
  "reconcile l =
     (case l_result l of
        None \<Rightarrow> (case l_lastResponse l of None \<Rightarrow> Undefined | Some d \<Rightarrow> Val d)
      | Some res \<Rightarrow>
          if rr_status res \<noteq> ''Success''
          then Val \<lparr> m_id = None, m_conversationId = None, m_text = rr_message res, m_detail = None \<rparr>
          else rr_data res)"

text \<open>\<^verbatim>\<open>result.data.detail?.usage\<close>.\<close>

definition usage_of :: "ChatMessage \<Rightarrow> UsageResponse option" where
  "usage_of d = (case m_detail d of None \<Rightarrow> None | Some dt \<Rightarrow> d_usage dt)"

text \<open>\<^verbatim>\<open>message.previousResponse || []\<close> with the turn's response and options
  pushed (lines 458 and 459).\<close>

definition pushed_previousResponse :: "ChatInfo \<Rightarrow> previousResponse_entry list" where
  "pushed_previousResponse m =
     (case c_previousResponse m of Val ps \<Rightarrow> ps | Undefined \<Rightarrow> [] | Null \<Rightarrow> []) @
     [\<lparr> p_response = c_response m, p_options = c_options m \<rparr>]"

text \<open>The \<^verbatim>\<open>finally\<close> block, lines 444 to 486, with \<open>oid\<close> what
  \<^verbatim>\<open>new ObjectId(req.headers.userId)\<close> yields. It ends the response and returns when the
  data to persist is \<^verbatim>\<open>undefined\<close> (line 453). Otherwise it updates the turn (with the
  pushed branch list when \<^verbatim>\<open>regenerate && message.options.messageId\<close>) and, when
  \<^verbatim>\<open>result.data.detail?.usage\<close> is an object, builds the ObjectId and inserts a usage
  row. Whatever is thrown on the way is logged by the inner catch and ends the block:
  the TypeError of reading \<^verbatim>\<open>message.options\<close> without a message or
  \<^verbatim>\<open>result.data.text\<close> of \<^verbatim>\<open>null\<close> data (no update is made then), and the exception of
  the ObjectId constructor (the update is made, no usage row is written).\<close>

definition chat_process_finally :: "RequestProps \<Rightarrow> string outcome \<Rightarrow> locals \<Rightarrow> run \<Rightarrow> run" where
  "chat_process_finally b oid l r =
     (let r1 = res_end r
      in case reconcile l of
           Undefined \<Rightarrow> r1
         | Null \<Rightarrow> console (Logged TypeError) r1
         | Val d \<Rightarrow>
             (case l_message l of
                None \<Rightarrow> console (Logged TypeError) r1
              | Some m \<Rightarrow>
                  (let r2 =
                         (if b_regenerate b \<and> truthy_str (o_messageId (c_options m))
                          then do_updateChat (Some (c_id m)) (m_text d) (m_id d) (m_conversationId d)
                                 (usage_of d) (Some (pushed_previousResponse m)) r1
                          else do_updateChat (Some (c_id m)) (m_text d) (m_id d) (m_conversationId d)
                                 (usage_of d) None r1)
                   in case usage_of d of
                        None \<Rightarrow> r2
                      | Some u \<Rightarrow>
                          (case oid of
                             Throws e \<Rightarrow> console (Logged e) r2
                           | Returns userObjectId \<Rightarrow>
                               do_insertChatUsage userObjectId (b_roomId b) (c_id m) (m_id d) u r2))))"

text \<open>The handler. \<^verbatim>\<open>getChatRoom\<close> is awaited at line 384, before the \<^verbatim>\<open>try\<close> of line
  392: when it rejects, the handler's promise rejects with nothing written and the
  response not ended. A room that was not found is reported on the console, and the
  handler goes on.\<close>

definition chat_process :: "RequestProps \<Rightarrow> string \<Rightarrow> answers \<Rightarrow> store \<Rightarrow> run" where
  "chat_process b userId ans s =
     (case a_room ans of
        Throws e \<Rightarrow> (start s) \<lparr> r_rejected := Some e \<rparr>
      | Returns room \<Rightarrow>
          (let r0 = (case room of
                       None \<Rightarrow> console (UnableToGetChatRoom userId (b_roomId b)) (start s)
                     | Some rm \<Rightarrow> start s);
               systemMessage = resolve_systemMessage room (b_systemMessage b);
               (c, l, r1) = chat_process_try b userId systemMessage ans r0
           in chat_process_finally b (a_userObjectId ans) l (chat_process_catch c r1)))"

section \<open>\<^verbatim>\<open>POST /chat-abort\<close>\<close>

text \<open>Modelled from the spec: \<^verbatim>\<open>abortChatProcess\<close> of \<^verbatim>\<open>./chatgpt\<close> is not in this
  file. It is the spec's \<^verbatim>\<open>signal(userId) -> priorMessageId|absent\<close>: it marks the
  user's current handle, if any, as cancelled and returns the id of its turn; it
  returns absent when no turn is registered for the user.\<close>

definition abortChatProcess :: "string \<Rightarrow> run \<Rightarrow> object_id option \<times> run" where
  "abortChatProcess userId r =
     (case r_abortMap r userId of
        None \<Rightarrow> (None, called (AbortChatProcess userId) r)
      | Some (msgId, signalled) \<Rightarrow>
          (Some msgId,
           called (AbortChatProcess userId)
             (r \<lparr> r_abortMap := (r_abortMap r)(userId \<mapsto> (msgId, True)) \<rparr>)))"

text \<open>The handler, lines 489 to 504, with the body's \<^verbatim>\<open>text\<close>, \<^verbatim>\<open>messageId\<close> and
  \<^verbatim>\<open>conversationId\<close>: it passes whatever \<^verbatim>\<open>abortChatProcess\<close> returned to
  \<^verbatim>\<open>updateChat\<close>, with \<^verbatim>\<open>null\<close> usage and no branch list, and answers
  \<^verbatim>\<open>{ status: 'Success', message: 'OK', data: null }\<close>.\<close>

definition chat_abort :: "string \<Rightarrow> string \<Rightarrow> string \<Rightarrow> string \<Rightarrow> store \<Rightarrow> run" where
  "chat_abort userId txt messageId conversationId s =
     (let (msgId, r1) = abortChatProcess userId (start s);
          r2 = do_updateChat msgId (Some txt) (Some messageId) (Some conversationId) None None r1
      in res_send (SendJson ''Success'' ''OK'') r2)"

section \<open>Example requests\<close>

text \<open>The turn of the spec's end-to-end scenarios: a user asks \<open>2+2?\<close> as turn 1002 of
  room 1; the backend streams \<open>2+2\<close>, \<open>2+2=\<close>, \<open>2+2=4\<close> and ends with usage
  5, 3, 8. The user's id is a well-formed ObjectId string, 24 hexadecimal digits.\<close>

definition ex_userId :: string where
  "ex_userId = ''64b7f0c2a1d3e4f5a6b7c8d9''"

definition ex_no_options :: ChatOptions where
  "ex_no_options =
     \<lparr> o_parentMessageId = None, o_messageId = None, o_conversationId = None,
       o_prompt_tokens = None, o_completion_tokens = None, o_total_tokens = None,
       o_estimated = None \<rparr>"

definition ex_event :: "string \<Rightarrow> ChatMessage" where
  "ex_event t =
     \<lparr> m_id = Some ''m1'', m_conversationId = Some ''c1'', m_text = Some t, m_detail = None \<rparr>"

definition ex_usage :: UsageResponse where
  "ex_usage = \<lparr> prompt_tokens = 5, completion_tokens = 3, total_tokens = 8, estimated = False \<rparr>"

definition ex_zero_usage :: UsageResponse where
  "ex_zero_usage = \<lparr> prompt_tokens = 0, completion_tokens = 0, total_tokens = 0, estimated = False \<rparr>"

definition ex_data :: "string \<Rightarrow> UsageResponse option \<Rightarrow> ChatMessage" where
  "ex_data t u =
     \<lparr> m_id = Some ''m1'', m_conversationId = Some ''c1'', m_text = Some t,
       m_detail = Some \<lparr> d_finish_reasons = [Some ''stop''], d_usage = u \<rparr> \<rparr>"

definition ex_success :: "ChatMessage \<Rightarrow> ReplyResult option outcome" where
  "ex_success d = Returns (Some \<lparr> rr_status = ''Success'', rr_message = None, rr_data = Val d \<rparr>)"

definition ex_failure :: "string \<Rightarrow> ReplyResult option outcome" where
  "ex_failure msg = Returns (Some \<lparr> rr_status = ''Fail'', rr_message = Some msg, rr_data = Null \<rparr>)"

definition ex_request :: "bool \<Rightarrow> RequestProps" where
  "ex_request regenerate =
     \<lparr> b_roomId = 1, b_uuid = 1002, b_regenerate = regenerate, b_prompt = ''2+2?'',
       b_options = ex_no_options, b_systemMessage = Some ''Be brief.'',
       b_temperature = None, b_top_p = None \<rparr>"

text \<open>The collaborators' answers to that user, who is not Admin, auditing off, in a room
  of their own without a prompt; the partial events and the end of the backend call vary.\<close>

definition ex_answers :: "ChatMessage list \<Rightarrow> ReplyResult option outcome \<Rightarrow> answers" where
  "ex_answers ps res =
     \<lparr> a_room = Returns (Some \<lparr> room_prompt = None, room_usingContext = None \<rparr>),
       a_auditConfig = \<lparr> ac_enabled = False, ac_customizeEnabled = False \<rparr>,
       a_user = Some \<lparr> user_roles = [OtherRole 0], user_chatModel = ''gpt-3.5-turbo'' \<rparr>,
       a_sensitive = False, a_key = Returns (Some ''sk-1''), a_partials = ps, a_result = res,
       a_userObjectId = Returns ex_userId \<rparr>"

definition ex_store :: store where
  "ex_store = \<lparr> s_chats = [], s_usages = [], s_nextId = 0, s_now = 0, s_abortMap = Map.empty \<rparr>"

text \<open>The turn as \<open>insertChat\<close> leaves it, and as a first answer \<open>2+2=4\<close> leaves it.\<close>

definition ex_unanswered :: ChatInfo where
  "ex_unanswered = new_chat 0 0 1002 ''2+2?'' 1 ex_no_options"

definition ex_answered_options :: ChatOptions where
  "ex_answered_options =
     \<lparr> o_parentMessageId = None, o_messageId = Some ''m1'', o_conversationId = Some ''c1'',
       o_prompt_tokens = Some 5, o_completion_tokens = Some 3, o_total_tokens = Some 8,
       o_estimated = Some False \<rparr>"

definition ex_answered :: ChatInfo where
  "ex_answered = ex_unanswered \<lparr> c_response := Some ''2+2=4'', c_options := ex_answered_options \<rparr>"

definition ex_store_with :: "ChatInfo \<Rightarrow> store" where
  "ex_store_with c = ex_store \<lparr> s_chats := [c], s_nextId := 1 \<rparr>"

text \<open>Two errors of collaborators: the store is unreachable, and the ObjectId
  constructor refuses an id.\<close>

definition ex_unreachable :: js_error where
  "ex_unreachable = Rejection (Some ''connection refused'')"

definition ex_refused :: js_error where
  "ex_refused = Rejection (Some ''invalid ObjectId'')"

text \<open>A turn that was regenerated twice: two retained answers and the current one.\<close>

definition ex_branched :: ChatInfo where
  "ex_branched =
     ex_answered
       \<lparr> c_response := Some ''Four.'',
         c_previousResponse :=
           Val [\<lparr> p_response = Some ''2+2=4'', p_options = ex_answered_options \<rparr>,
                \<lparr> p_response = Some ''The answer is 4.'', p_options = ex_no_options \<rparr>] \<rparr>"


section \<open>Lemmas about the run of a request\<close>

lemma called_fields:
  "r_chats (called c r) = r_chats r" "r_usages (called c r) = r_usages r"
  "r_nextId (called c r) = r_nextId r" "r_now (called c r) = r_now r"
  "r_abortMap (called c r) = r_abortMap r" "r_body (called c r) = r_body r"
  "r_ended (called c r) = r_ended r" "r_calls (called c r) = r_calls r @ [c]"
  "r_console (called c r) = r_console r"
  by (simp_all add: called_def)

lemma res_write_fields:
  "r_chats (res_write cs r) = r_chats r" "r_usages (res_write cs r) = r_usages r"
  "r_nextId (res_write cs r) = r_nextId r" "r_now (res_write cs r) = r_now r"
  "r_abortMap (res_write cs r) = r_abortMap r" "r_body (res_write cs r) = r_body r @ cs"
  "r_ended (res_write cs r) = r_ended r" "r_calls (res_write cs r) = r_calls r"
  "r_console (res_write cs r) = r_console r"
  by (simp_all add: res_write_def)

lemma res_send_fields:
  "r_chats (res_send p r) = r_chats r" "r_usages (res_send p r) = r_usages r"
  "r_nextId (res_send p r) = r_nextId r" "r_now (res_send p r) = r_now r"
  "r_abortMap (res_send p r) = r_abortMap r" "r_body (res_send p r) = r_body r @ [(False, p)]"
  "r_ended (res_send p r) = True" "r_calls (res_send p r) = r_calls r"
  "r_console (res_send p r) = r_console r"
  by (simp_all add: res_send_def)

lemma res_end_fields:
  "r_chats (res_end r) = r_chats r" "r_usages (res_end r) = r_usages r"
  "r_nextId (res_end r) = r_nextId r" "r_now (res_end r) = r_now r"
  "r_abortMap (res_end r) = r_abortMap r" "r_body (res_end r) = r_body r"
  "r_ended (res_end r) = True" "r_calls (res_end r) = r_calls r"
  "r_console (res_end r) = r_console r"
  by (simp_all add: res_end_def)

lemma console_fields:
  "r_chats (console l r) = r_chats r" "r_usages (console l r) = r_usages r"
  "r_nextId (console l r) = r_nextId r" "r_now (console l r) = r_now r"
  "r_abortMap (console l r) = r_abortMap r" "r_body (console l r) = r_body r"
  "r_ended (console l r) = r_ended r" "r_calls (console l r) = r_calls r"
  "r_console (console l r) = r_console r @ [l]"
  by (simp_all add: console_def)

lemma start_fields:
  "r_chats (start s) = s_chats s" "r_usages (start s) = s_usages s"
  "r_nextId (start s) = s_nextId s" "r_now (start s) = s_now s"
  "r_abortMap (start s) = s_abortMap s" "r_body (start s) = []"
  "r_ended (start s) = False" "r_calls (start s) = []" "r_console (start s) = []"
  by (simp_all add: start_def)

lemma do_updateChat_fields:
  "r_chats (do_updateChat i t m c u p r) = updateChat i t m c u p (r_chats r)"
  "r_usages (do_updateChat i t m c u p r) = r_usages r"
  "r_nextId (do_updateChat i t m c u p r) = r_nextId r"
  "r_now (do_updateChat i t m c u p r) = r_now r"
  "r_abortMap (do_updateChat i t m c u p r) = r_abortMap r"
  "r_body (do_updateChat i t m c u p r) = r_body r"
  "r_ended (do_updateChat i t m c u p r) = r_ended r"
  "r_calls (do_updateChat i t m c u p r) = r_calls r @ [UpdateChat i t m c u p]"
  "r_console (do_updateChat i t m c u p r) = r_console r"
  by (simp_all add: do_updateChat_def called_def)

lemma do_insertChatUsage_fields:
  "r_chats (do_insertChatUsage a b c d u r) = r_chats r"
  "r_usages (do_insertChatUsage a b c d u r) = insertChatUsage a b c d u (r_usages r)"
  "r_nextId (do_insertChatUsage a b c d u r) = r_nextId r"
  "r_now (do_insertChatUsage a b c d u r) = r_now r"
  "r_abortMap (do_insertChatUsage a b c d u r) = r_abortMap r"
  "r_body (do_insertChatUsage a b c d u r) = r_body r"
  "r_ended (do_insertChatUsage a b c d u r) = r_ended r"
  "r_calls (do_insertChatUsage a b c d u r) = r_calls r @ [InsertChatUsage a b c d u]"
  "r_console (do_insertChatUsage a b c d u r) = r_console r"
  by (simp_all add: do_insertChatUsage_def called_def)

lemma obtain_message_fields:
  "r_body (snd (obtain_message b r)) = r_body r"
  "r_ended (snd (obtain_message b r)) = r_ended r"
  "r_usages (snd (obtain_message b r)) = r_usages r"
  "r_abortMap (snd (obtain_message b r)) = r_abortMap r"
  "r_console (snd (obtain_message b r)) = r_console r"
  "r_calls (snd (obtain_message b r)) = r_calls r @
     [if b_regenerate b then GetChat (b_roomId b) (b_uuid b)
      else InsertChat (b_uuid b) (b_prompt b) (b_roomId b) (b_options b)]"
  by (simp_all add: obtain_message_def do_getChat_def do_insertChat_def called_def Let_def)

lemmas fields = called_fields res_write_fields res_send_fields res_end_fields console_fields
  start_fields do_updateChat_fields do_insertChatUsage_fields obtain_message_fields



subsection \<open>The finally block\<close>

lemma finally_response:
  "r_body (chat_process_finally b oid l r) = r_body r"
  "r_ended (chat_process_finally b oid l r)"
  by (simp_all add: chat_process_finally_def fields Let_def
        split: js.splits option.splits outcome.splits)

lemma finally_calls:
  "r_calls (chat_process_finally b oid l r) = r_calls r @
     (case reconcile l of
        Undefined \<Rightarrow> []
      | Null \<Rightarrow> []
      | Val d \<Rightarrow>
          (case l_message l of
             None \<Rightarrow> []
           | Some m \<Rightarrow>
               UpdateChat (Some (c_id m)) (m_text d) (m_id d) (m_conversationId d) (usage_of d)
                 (if b_regenerate b \<and> truthy_str (o_messageId (c_options m))
                  then Some (pushed_previousResponse m) else None) #
               (case usage_of d of
                  None \<Rightarrow> []
                | Some u \<Rightarrow>
                    (case oid of
                       Throws e \<Rightarrow> []
                     | Returns userObjectId \<Rightarrow>
                         [InsertChatUsage userObjectId (b_roomId b) (c_id m) (m_id d) u]))))"
  by (auto simp: chat_process_finally_def fields Let_def
        split: js.splits option.splits outcome.splits)

lemma finally_chats:
  "r_chats (chat_process_finally b oid l r) =
     (case reconcile l of
        Undefined \<Rightarrow> r_chats r
      | Null \<Rightarrow> r_chats r
      | Val d \<Rightarrow>
          (case l_message l of
             None \<Rightarrow> r_chats r
           | Some m \<Rightarrow>
               updateChat (Some (c_id m)) (m_text d) (m_id d) (m_conversationId d) (usage_of d)
                 (if b_regenerate b \<and> truthy_str (o_messageId (c_options m))
                  then Some (pushed_previousResponse m) else None) (r_chats r)))"
  by (auto simp: chat_process_finally_def fields Let_def
        split: js.splits option.splits outcome.splits)

lemma finally_usages:
  "r_usages (chat_process_finally b oid l r) =
     (case reconcile l of
        Undefined \<Rightarrow> r_usages r
      | Null \<Rightarrow> r_usages r
      | Val d \<Rightarrow>
          (case l_message l of
             None \<Rightarrow> r_usages r
           | Some m \<Rightarrow>
               (case usage_of d of
                  None \<Rightarrow> r_usages r
                | Some u \<Rightarrow>
                    (case oid of
                       Throws e \<Rightarrow> r_usages r
                     | Returns userObjectId \<Rightarrow>
                         insertChatUsage userObjectId (b_roomId b) (c_id m) (m_id d) u (r_usages r)))))"
  by (simp add: chat_process_finally_def fields Let_def
        split: js.splits option.splits outcome.splits)

lemma catch_fields:
  "r_chats (chat_process_catch c r) = r_chats r"
  "r_usages (chat_process_catch c r) = r_usages r"
  "r_calls (chat_process_catch c r) = r_calls r"
  "r_body (chat_process_catch c r) =
     r_body r @ (case c of Thrown e \<Rightarrow> [(False, ErrorJson e)] | Completed \<Rightarrow> [] | Returned \<Rightarrow> [])"
  by (simp_all add: chat_process_catch_def fields split: completion.splits)

subsection \<open>The try block\<close>

lemma stream_calls:
  "r_calls (snd (snd (stream opts ans m r))) = r_calls r @ [ChatReplyProcess opts]"
  "r_chats (snd (snd (stream opts ans m r))) = r_chats r"
  "r_usages (snd (snd (stream opts ans m r))) = r_usages r"
  "l_message (fst (snd (stream opts ans m r))) = Some m"
  by (simp_all add: stream_def fields Let_def split: outcome.splits option.splits)

lemma stream_locals:
  "l_lastResponse (fst (snd (stream opts ans m r))) = last_partial (a_partials ans)"
  "l_result (fst (snd (stream opts ans m r))) =
     (case a_result ans of Returns x \<Rightarrow> x | Throws e \<Rightarrow> None)"
  by (simp_all add: stream_def fields Let_def split: outcome.splits option.splits)

text \<open>The handler, once the room lookup has answered, as the finally block after the
  catch block after the try block; and the handler when the lookup rejects.\<close>

lemma chat_process_alt:
  assumes "a_room ans = Returns room"
  shows "chat_process b userId ans s =
     chat_process_finally b (a_userObjectId ans)
       (fst (snd (chat_process_try b userId (resolve_systemMessage room (b_systemMessage b)) ans
          (case room of None \<Rightarrow> console (UnableToGetChatRoom userId (b_roomId b)) (start s) | Some rm \<Rightarrow> start s))))
       (chat_process_catch
          (fst (chat_process_try b userId (resolve_systemMessage room (b_systemMessage b)) ans
          (case room of None \<Rightarrow> console (UnableToGetChatRoom userId (b_roomId b)) (start s) | Some rm \<Rightarrow> start s)))
          (snd (snd (chat_process_try b userId (resolve_systemMessage room (b_systemMessage b)) ans
          (case room of None \<Rightarrow> console (UnableToGetChatRoom userId (b_roomId b)) (start s) | Some rm \<Rightarrow> start s)))))"
  using assms by (simp add: chat_process_def Let_def split_beta)

lemma chat_process_rejected:
  assumes "a_room ans = Throws e"
  shows "r_calls (chat_process b userId ans s) = []"
    and "r_body (chat_process b userId ans s) = []"
    and "r_usages (chat_process b userId ans s) = s_usages s"
    and "r_chats (chat_process b userId ans s) = s_chats s"
    and "\<not> r_ended (chat_process b userId ans s)"
  using assms by (simp_all add: chat_process_def start_def)

lemma room_answered:
  assumes "c \<in> set (r_calls (chat_process b userId ans s))"
  obtains room where "a_room ans = Returns room"
  using assms by (cases "a_room ans") (simp_all add: chat_process_rejected)

lemmas try_defs = chat_process_try_def proceed_def stream_def

subsection \<open>Rows of the store\<close>

lemma update_row_fields:
  "c_id (update_row t mi cv us pv x) = c_id x"
  "c_roomId (update_row t mi cv us pv x) = c_roomId x"
  "c_uuid (update_row t mi cv us pv x) = c_uuid x"
  "c_response (update_row t mi cv us pv x) = t"
  "c_previousResponse (update_row t mi cv us pv x) =
     (case pv of None \<Rightarrow> c_previousResponse x | Some ps \<Rightarrow> Val ps)"
  "o_messageId (c_options (update_row t mi cv us pv x)) = mi"
  "o_conversationId (c_options (update_row t mi cv us pv x)) = cv"
  by (simp_all add: update_row_def)

lemma getChat_updateChat:
  "getChat roomId uuid (updateChat i t mi cv us pv chats) =
     map_option (\<lambda>x. if Some (c_id x) = i then update_row t mi cv us pv x else x)
       (getChat roomId uuid chats)"
proof (induction chats)
  case Nil
  show ?case by (simp add: getChat_def updateChat_def)
next
  case (Cons a chats)
  have keys: "c_roomId (if Some (c_id a) = i then update_row t mi cv us pv a else a) = c_roomId a"
             "c_uuid (if Some (c_id a) = i then update_row t mi cv us pv a else a) = c_uuid a"
    by (simp_all add: update_row_fields)
  from Cons show ?case
    by (simp add: getChat_def updateChat_def keys del: if_split split del: if_split)
       (simp)
qed

lemma updateChat_member:
  assumes "x \<in> set (updateChat (Some i) t mi cv us pv chats)" and "c_id x = i"
  shows "c_response x = t \<and> o_messageId (c_options x) = mi \<and> o_conversationId (c_options x) = cv"
proof -
  from assms(1) have "x \<in> (\<lambda>c. if c_id c = i then update_row t mi cv us pv c else c) ` set chats"
    by (simp add: updateChat_def)
  then obtain y
    where y: "x = (if c_id y = i then update_row t mi cv us pv y else y)"
    by (rule imageE)
  show ?thesis
  proof (cases "c_id y = i")
    case True
    with y show ?thesis by (simp add: update_row_fields)
  next
    case False
    with y assms(2) show ?thesis by simp
  qed
qed

lemma updateChat_ids:
  "map c_id (updateChat i t mi cv us pv chats) = map c_id chats"
  by (simp add: updateChat_def update_row_fields)

lemma getChat_member: "getChat roomId uuid chats = Some m \<Longrightarrow> m \<in> set chats"
  by (auto simp: getChat_def find_Some_iff)

subsection \<open>The turn a request works on, and what the try block leaves\<close>

lemma obtain_message_turn:
  "fst (obtain_message b r) =
     (if b_regenerate b then getChat (b_roomId b) (b_uuid b) (r_chats r)
      else Some (new_chat (r_nextId r) (r_now r) (b_uuid b) (b_prompt b) (b_roomId b) (b_options b)))"
  "r_chats (snd (obtain_message b r)) =
     (if b_regenerate b then r_chats r
      else r_chats r @ [new_chat (r_nextId r) (r_now r) (b_uuid b) (b_prompt b) (b_roomId b) (b_options b)])"
  by (simp_all add: obtain_message_def do_getChat_def do_insertChat_def called_def Let_def)

lemma reconcile_no_locals:
  "reconcile no_locals = Undefined" "reconcile (no_locals \<lparr> l_message := x \<rparr>) = Undefined"
  by (simp_all add: reconcile_def no_locals_def)

lemma reconcile_message:
  "reconcile (l \<lparr> l_message := x \<rparr>) = reconcile l"
  by (simp add: reconcile_def split: option.splits)

text \<open>The locals and the run that \<open>stream\<close> leaves.\<close>

lemma stream_result:
  "fst (snd (stream opts ans m r)) =
     \<lparr> l_lastResponse = last_partial (a_partials ans),
       l_result = (case a_result ans of Returns x \<Rightarrow> x | Throws e \<Rightarrow> None),
       l_message = Some m \<rparr>"
  by (simp add: stream_def Let_def split: outcome.splits option.splits)

lemma proceed_usages:
  "r_usages (snd (snd (proceed b userId sm ans user r))) = r_usages r"
  by (simp add: proceed_def split_beta Let_def fields stream_calls split: outcome.splits option.splits)

lemma proceed_chats:
  "r_chats (snd (snd (proceed b userId sm ans user r))) = r_chats (snd (obtain_message b r))"
  by (simp add: proceed_def split_beta Let_def fields stream_calls split: outcome.splits option.splits)

lemma proceed_calls:
  "r_calls (snd (snd (proceed b userId sm ans user r))) =
     r_calls (snd (obtain_message b r)) @ GetRandomApiKey (user_chatModel user) #
       (case a_key ans of
          Throws e \<Rightarrow> []
        | Returns key \<Rightarrow>
            (case fst (obtain_message b r) of
               None \<Rightarrow> []
             | Some m \<Rightarrow>
                 [ChatReplyProcess
                    \<lparr> q_message = b_prompt b, q_lastContext = b_options b, q_systemMessage = sm,
                      q_temperature = b_temperature b, q_top_p = b_top_p b,
                      q_chatModel = user_chatModel user, q_key = key, q_userId = userId,
                      q_messageId = c_id m \<rparr>]))"
  by (simp add: proceed_def split_beta Let_def fields stream_calls split: outcome.splits option.splits)

lemma proceed_locals:
  "fst (snd (proceed b userId sm ans user r)) =
     (case a_key ans of
        Throws e \<Rightarrow> no_locals \<lparr> l_message := fst (obtain_message b r) \<rparr>
      | Returns key \<Rightarrow>
          (case fst (obtain_message b r) of
             None \<Rightarrow> no_locals
           | Some m \<Rightarrow>
               \<lparr> l_lastResponse = last_partial (a_partials ans),
                 l_result = (case a_result ans of Returns x \<Rightarrow> x | Throws e \<Rightarrow> None),
                 l_message = Some m \<rparr>))"
  by (simp add: proceed_def split_beta Let_def stream_result split: outcome.splits option.splits)


lemma obtain_message_called:
  "fst (obtain_message b (called c r)) = fst (obtain_message b r)"
  "r_chats (snd (obtain_message b (called c r))) = r_chats (snd (obtain_message b r))"
  by (simp_all add: obtain_message_turn called_fields)

lemma try_usages:
  "r_usages (snd (snd (chat_process_try b userId sm ans r))) = r_usages r"
  by (simp add: chat_process_try_def split_beta Let_def fields proceed_usages split: option.splits)

lemma try_store_calls:
  assumes "r_calls r = []"
  shows "UpdateChat i t mi cv us pv \<notin> set (r_calls (snd (snd (chat_process_try b userId sm ans r))))"
    and "InsertChatUsage uid rid cid mid u \<notin> set (r_calls (snd (snd (chat_process_try b userId sm ans r))))"
  using assms
  by (simp_all add: chat_process_try_def split_beta Let_def fields proceed_calls
        split: option.splits outcome.splits)

lemma try_reconcile:
  assumes "reconcile (fst (snd (chat_process_try b userId sm ans r))) = Val d"
  shows "\<exists>m. fst (obtain_message b r) = Some m \<and>
             fst (snd (chat_process_try b userId sm ans r)) =
               \<lparr> l_lastResponse = last_partial (a_partials ans),
                 l_result = (case a_result ans of Returns x \<Rightarrow> x | Throws e \<Rightarrow> None),
                 l_message = Some m \<rparr> \<and>
             r_chats (snd (snd (chat_process_try b userId sm ans r))) = r_chats (snd (obtain_message b r))"
  using assms
  by (auto simp: chat_process_try_def split_beta Let_def proceed_locals proceed_chats
        reconcile_no_locals obtain_message_called
        split: option.splits outcome.splits if_splits)

lemma try_backend:
  assumes "ChatReplyProcess opts \<in> set (r_calls (snd (snd (chat_process_try b userId sm ans r))))"
      and "r_calls r = []"
  shows "\<exists>m. fst (obtain_message b r) = Some m \<and> q_messageId opts = c_id m \<and>
             q_systemMessage opts = sm \<and>
             fst (chat_process_try b userId sm ans r) =
               (case a_result ans of
                  Throws e \<Rightarrow> Thrown e
                | Returns None \<Rightarrow> Thrown TypeError
                | Returns (Some res) \<Rightarrow> Completed) \<and>
             fst (snd (chat_process_try b userId sm ans r)) =
               \<lparr> l_lastResponse = last_partial (a_partials ans),
                 l_result = (case a_result ans of Returns x \<Rightarrow> x | Throws e \<Rightarrow> None),
                 l_message = Some m \<rparr> \<and>
             r_chats (snd (snd (chat_process_try b userId sm ans r))) = r_chats (snd (obtain_message b r))"
  using assms
  by (auto simp: chat_process_try_def split_beta Let_def proceed_locals proceed_chats proceed_calls
        proceed_def stream_def
        reconcile_no_locals obtain_message_called fields
        split: option.splits outcome.splits if_splits)


subsection \<open>The whole handler\<close>

lemma entry_fields:
  "r_calls (case room of None \<Rightarrow> console l (start s) | Some rm \<Rightarrow> start s) = []"
  "r_chats (case room of None \<Rightarrow> console l (start s) | Some rm \<Rightarrow> start s) = s_chats s"
  "r_usages (case room of None \<Rightarrow> console l (start s) | Some rm \<Rightarrow> start s) = s_usages s"
  "r_nextId (case room of None \<Rightarrow> console l (start s) | Some rm \<Rightarrow> start s) = s_nextId s"
  "r_now (case room of None \<Rightarrow> console l (start s) | Some rm \<Rightarrow> start s) = s_now s"
  "r_body (case room of None \<Rightarrow> console l (start s) | Some rm \<Rightarrow> start s) = []"
  by (simp_all add: fields split: option.splits)

lemma finally_update_call:
  assumes "UpdateChat i t mi cv us pv \<in> set (r_calls (chat_process_finally b oid l r))"
      and "UpdateChat i t mi cv us pv \<notin> set (r_calls r)"
  shows "\<exists>d m. reconcile l = Val d \<and> l_message l = Some m \<and>
           i = Some (c_id m) \<and> t = m_text d \<and> mi = m_id d \<and> cv = m_conversationId d \<and>
           us = usage_of d \<and>
           pv = (if b_regenerate b \<and> truthy_str (o_messageId (c_options m))
                 then Some (pushed_previousResponse m) else None)"
proof -
  from assms obtain d m where d: "reconcile l = Val d" and m: "l_message l = Some m"
    by (cases "reconcile l"; cases "l_message l") (simp_all add: finally_calls)
  from assms d m
  have "UpdateChat i t mi cv us pv =
          UpdateChat (Some (c_id m)) (m_text d) (m_id d) (m_conversationId d) (usage_of d)
            (if b_regenerate b \<and> truthy_str (o_messageId (c_options m))
             then Some (pushed_previousResponse m) else None)"
    by (cases "usage_of d"; cases oid) (simp_all add: finally_calls del: call.inject)
  with d m show ?thesis by simp
qed

lemma update_call_shape:
  assumes "UpdateChat i t mi cv us pv \<in> set (r_calls (chat_process b userId ans s))"
  shows "\<exists>m d. i = Some (c_id m) \<and> t = m_text d \<and> mi = m_id d \<and> cv = m_conversationId d \<and>
           us = usage_of d \<and>
           pv = (if b_regenerate b \<and> truthy_str (o_messageId (c_options m))
                 then Some (pushed_previousResponse m) else None) \<and>
           (if b_regenerate b
            then getChat (b_roomId b) (b_uuid b) (s_chats s) = Some m \<and>
                 r_chats (chat_process b userId ans s) = updateChat i t mi cv us pv (s_chats s)
            else m = new_chat (s_nextId s) (s_now s) (b_uuid b) (b_prompt b) (b_roomId b) (b_options b) \<and>
                 r_chats (chat_process b userId ans s) = updateChat i t mi cv us pv (s_chats s @ [m])) \<and>
           r_usages (chat_process b userId ans s) =
             (case us of
                None \<Rightarrow> s_usages s
              | Some u \<Rightarrow>
                  (case a_userObjectId ans of
                     Throws e \<Rightarrow> s_usages s
                   | Returns userObjectId \<Rightarrow>
                       insertChatUsage userObjectId (b_roomId b) (c_id m) mi u (s_usages s))) \<and>
           reconcile \<lparr> l_lastResponse = last_partial (a_partials ans),
                       l_result = (case a_result ans of Returns x \<Rightarrow> x | Throws e \<Rightarrow> None),
                       l_message = Some m \<rparr> = Val d"
proof -
  from assms obtain room where room: "a_room ans = Returns room"
    by (rule room_answered)
  define r0 where "r0 = (case room of
               None \<Rightarrow> console (UnableToGetChatRoom userId (b_roomId b)) (start s)
             | Some rm \<Rightarrow> start s)"
  define T where "T = chat_process_try b userId (resolve_systemMessage room (b_systemMessage b)) ans r0"
  have r0: "r_calls r0 = []" "r_chats r0 = s_chats s" "r_usages r0 = s_usages s"
           "r_nextId r0 = s_nextId s" "r_now r0 = s_now s"
    unfolding r0_def by (rule entry_fields)+
  have cp: "chat_process b userId ans s =
              chat_process_finally b (a_userObjectId ans) (fst (snd T))
                (chat_process_catch (fst T) (snd (snd T)))"
    unfolding T_def r0_def by (rule chat_process_alt) (rule room)
  have notin: "UpdateChat i t mi cv us pv \<notin> set (r_calls (chat_process_catch (fst T) (snd (snd T))))"
    unfolding T_def catch_fields by (rule try_store_calls(1)) (rule r0(1))
  from finally_update_call [OF assms [unfolded cp] notin] obtain d m0
    where d: "reconcile (fst (snd T)) = Val d" and m0: "l_message (fst (snd T)) = Some m0"
      and call: "i = Some (c_id m0)" "t = m_text d" "mi = m_id d" "cv = m_conversationId d"
                "us = usage_of d"
                "pv = (if b_regenerate b \<and> truthy_str (o_messageId (c_options m0))
                       then Some (pushed_previousResponse m0) else None)"
    by blast
  from try_reconcile [OF d [unfolded T_def]] obtain m
    where m: "fst (obtain_message b r0) = Some m"
      and l: "fst (snd T) = \<lparr> l_lastResponse = last_partial (a_partials ans),
                 l_result = (case a_result ans of Returns x \<Rightarrow> x | Throws e \<Rightarrow> None),
                 l_message = Some m \<rparr>"
      and chats: "r_chats (snd (snd T)) = r_chats (snd (obtain_message b r0))"
    unfolding T_def by blast
  from l m0 have mm: "m0 = m" by simp
  have fin_chats: "r_chats (chat_process b userId ans s) =
      updateChat i t mi cv us pv (r_chats (snd (obtain_message b r0)))"
    using d m0 call chats by (simp add: cp finally_chats catch_fields)
  have "r_usages (snd (snd T)) = s_usages s"
    unfolding T_def by (simp add: try_usages r0)
  then have fin_usages: "r_usages (chat_process b userId ans s) =
      (case us of None \<Rightarrow> s_usages s
       | Some u \<Rightarrow>
           (case a_userObjectId ans of
              Throws e \<Rightarrow> s_usages s
            | Returns userObjectId \<Rightarrow>
                insertChatUsage userObjectId (b_roomId b) (c_id m) mi u (s_usages s)))"
    using d m0 call mm
    by (simp add: cp finally_usages catch_fields split: option.splits outcome.splits)
  have turn: "if b_regenerate b
      then getChat (b_roomId b) (b_uuid b) (s_chats s) = Some m \<and>
           r_chats (snd (obtain_message b r0)) = s_chats s
      else m = new_chat (s_nextId s) (s_now s) (b_uuid b) (b_prompt b) (b_roomId b) (b_options b) \<and>
           r_chats (snd (obtain_message b r0)) = s_chats s @ [m]"
    using m by (auto simp: obtain_message_turn r0)
  from d l have rec: "reconcile \<lparr> l_lastResponse = last_partial (a_partials ans),
                       l_result = (case a_result ans of Returns x \<Rightarrow> x | Throws e \<Rightarrow> None),
                       l_message = Some m \<rparr> = Val d"
    by simp
  show ?thesis
    using call mm fin_chats fin_usages turn rec
    by (intro exI [of _ m] exI [of _ d]) (simp split: if_splits)
qed


lemmas run_ops = called_def res_write_def res_send_def res_end_def console_def
  do_getChat_def do_insertChat_def do_updateChat_def do_insertChatUsage_def

subsection \<open>The backend call and what is persisted for its turn\<close>

lemma backend_call_shape:
  assumes "ChatReplyProcess opts \<in> set (r_calls (chat_process b userId ans s))"
  shows "\<exists>m room. (if b_regenerate b then getChat (b_roomId b) (b_uuid b) (s_chats s) = Some m
              else m = new_chat (s_nextId s) (s_now s) (b_uuid b) (b_prompt b) (b_roomId b) (b_options b)) \<and>
             q_messageId opts = c_id m \<and>
             a_room ans = Returns room \<and>
             q_systemMessage opts = resolve_systemMessage room (b_systemMessage b) \<and>
             (\<forall>d. reconcile \<lparr> l_lastResponse = last_partial (a_partials ans),
                       l_result = (case a_result ans of Returns x \<Rightarrow> x | Throws e \<Rightarrow> None),
                       l_message = Some m \<rparr> = Val d \<longrightarrow>
                  UpdateChat (Some (c_id m)) (m_text d) (m_id d) (m_conversationId d) (usage_of d)
                    (if b_regenerate b \<and> truthy_str (o_messageId (c_options m))
                     then Some (pushed_previousResponse m) else None)
                  \<in> set (r_calls (chat_process b userId ans s)))"
proof -
  from assms obtain room where room: "a_room ans = Returns room"
    by (rule room_answered)
  define r0 where "r0 = (case room of
               None \<Rightarrow> console (UnableToGetChatRoom userId (b_roomId b)) (start s)
             | Some rm \<Rightarrow> start s)"
  define T where "T = chat_process_try b userId (resolve_systemMessage room (b_systemMessage b)) ans r0"
  have r0: "r_calls r0 = []" "r_chats r0 = s_chats s" "r_usages r0 = s_usages s"
           "r_nextId r0 = s_nextId s" "r_now r0 = s_now s"
    unfolding r0_def by (rule entry_fields)+
  have cp: "chat_process b userId ans s =
              chat_process_finally b (a_userObjectId ans) (fst (snd T))
                (chat_process_catch (fst T) (snd (snd T)))"
    unfolding T_def r0_def by (rule chat_process_alt) (rule room)
  from assms have "ChatReplyProcess opts \<in> set (r_calls (snd (snd T)))"
    by (simp add: cp finally_calls catch_fields split: js.splits option.splits outcome.splits)
  from try_backend [OF this [unfolded T_def] r0(1)] obtain m
    where m: "fst (obtain_message b r0) = Some m"
      and q: "q_messageId opts = c_id m"
             "q_systemMessage opts = resolve_systemMessage room (b_systemMessage b)"
      and l: "fst (snd T) = \<lparr> l_lastResponse = last_partial (a_partials ans),
                 l_result = (case a_result ans of Returns x \<Rightarrow> x | Throws e \<Rightarrow> None),
                 l_message = Some m \<rparr>"
    unfolding T_def by blast
  have turn: "if b_regenerate b then getChat (b_roomId b) (b_uuid b) (s_chats s) = Some m
      else m = new_chat (s_nextId s) (s_now s) (b_uuid b) (b_prompt b) (b_roomId b) (b_options b)"
    using m by (auto simp: obtain_message_turn r0)
  have upd: "UpdateChat (Some (c_id m)) (m_text d) (m_id d) (m_conversationId d) (usage_of d)
                    (if b_regenerate b \<and> truthy_str (o_messageId (c_options m))
                     then Some (pushed_previousResponse m) else None)
                  \<in> set (r_calls (chat_process b userId ans s))"
    if "reconcile \<lparr> l_lastResponse = last_partial (a_partials ans),
                       l_result = (case a_result ans of Returns x \<Rightarrow> x | Throws e \<Rightarrow> None),
                       l_message = Some m \<rparr> = Val d" for d
    using that by (simp add: cp finally_calls l)
  from turn q room upd show ?thesis by blast
qed

lemma updateChat_usage_member:
  assumes "x \<in> set (updateChat (Some i) t mi cv us pv chats)" and "c_id x = i"
  shows "o_prompt_tokens (c_options x) = map_option prompt_tokens us \<and>
         o_completion_tokens (c_options x) = map_option completion_tokens us \<and>
         o_total_tokens (c_options x) = map_option total_tokens us"
proof -
  from assms(1) have "x \<in> (\<lambda>c. if c_id c = i then update_row t mi cv us pv c else c) ` set chats"
    by (simp add: updateChat_def)
  then obtain y
    where y: "x = (if c_id y = i then update_row t mi cv us pv y else y)"
    by (rule imageE)
  show ?thesis
  proof (cases "c_id y = i")
    case True
    with y show ?thesis by (simp add: update_row_def)
  next
    case False
    with y assms(2) show ?thesis by simp
  qed
qed

text \<open>What is persisted for the turn of a backend call, given the data the finally
  block reconciles.\<close>

lemma persisted_after_backend_call:
  assumes call: "ChatReplyProcess opts \<in> set (r_calls (chat_process b userId ans s))"
      and rec: "\<And>m. reconcile \<lparr> l_lastResponse = last_partial (a_partials ans),
                       l_result = (case a_result ans of Returns x \<Rightarrow> x | Throws e \<Rightarrow> None),
                       l_message = Some m \<rparr> = Val d"
  shows "(\<exists>pv. UpdateChat (Some (q_messageId opts)) (m_text d) (m_id d) (m_conversationId d)
                 (usage_of d) pv \<in> set (r_calls (chat_process b userId ans s))) \<and>
         (\<exists>x \<in> set (r_chats (chat_process b userId ans s)). c_id x = q_messageId opts) \<and>
         (\<forall>x \<in> set (r_chats (chat_process b userId ans s)). c_id x = q_messageId opts \<longrightarrow>
            c_response x = m_text d \<and> o_messageId (c_options x) = m_id d \<and>
            o_conversationId (c_options x) = m_conversationId d)"
proof -
  from backend_call_shape [OF call] obtain m room
    where bc: "(if b_regenerate b then getChat (b_roomId b) (b_uuid b) (s_chats s) = Some m
              else m = new_chat (s_nextId s) (s_now s) (b_uuid b) (b_prompt b) (b_roomId b) (b_options b)) \<and>
             q_messageId opts = c_id m \<and>
             a_room ans = Returns room \<and>
             q_systemMessage opts = resolve_systemMessage room (b_systemMessage b) \<and>
             (\<forall>d. reconcile \<lparr> l_lastResponse = last_partial (a_partials ans),
                       l_result = (case a_result ans of Returns x \<Rightarrow> x | Throws e \<Rightarrow> None),
                       l_message = Some m \<rparr> = Val d \<longrightarrow>
                  UpdateChat (Some (c_id m)) (m_text d) (m_id d) (m_conversationId d) (usage_of d)
                    (if b_regenerate b \<and> truthy_str (o_messageId (c_options m))
                     then Some (pushed_previousResponse m) else None)
                  \<in> set (r_calls (chat_process b userId ans s)))"
    by (elim exE) (erule that)
  define pv where "pv = (if b_regenerate b \<and> truthy_str (o_messageId (c_options m))
                     then Some (pushed_previousResponse m) else None)"
  from bc have q: "q_messageId opts = c_id m" by (elim conjE)
  from bc have "reconcile \<lparr> l_lastResponse = last_partial (a_partials ans),
                       l_result = (case a_result ans of Returns x \<Rightarrow> x | Throws e \<Rightarrow> None),
                       l_message = Some m \<rparr> = Val d \<longrightarrow>
                  UpdateChat (Some (c_id m)) (m_text d) (m_id d) (m_conversationId d) (usage_of d) pv
                  \<in> set (r_calls (chat_process b userId ans s))"
    unfolding pv_def by (elim conjE allE [of _ d])
  with rec [of m]
  have upd: "UpdateChat (Some (c_id m)) (m_text d) (m_id d) (m_conversationId d) (usage_of d) pv
                  \<in> set (r_calls (chat_process b userId ans s))"
    by (rule rev_mp)
  from update_call_shape [OF upd] obtain m2 d2
    where big: "Some (c_id m) = Some (c_id m2) \<and> m_text d = m_text d2 \<and> m_id d = m_id d2 \<and>
           m_conversationId d = m_conversationId d2 \<and> usage_of d = usage_of d2 \<and>
           pv = (if b_regenerate b \<and> truthy_str (o_messageId (c_options m2))
                 then Some (pushed_previousResponse m2) else None) \<and>
           (if b_regenerate b
            then getChat (b_roomId b) (b_uuid b) (s_chats s) = Some m2 \<and>
                 r_chats (chat_process b userId ans s) =
                   updateChat (Some (c_id m)) (m_text d) (m_id d) (m_conversationId d) (usage_of d) pv
                     (s_chats s)
            else m2 = new_chat (s_nextId s) (s_now s) (b_uuid b) (b_prompt b) (b_roomId b) (b_options b) \<and>
                 r_chats (chat_process b userId ans s) =
                   updateChat (Some (c_id m)) (m_text d) (m_id d) (m_conversationId d) (usage_of d) pv
                     (s_chats s @ [m2])) \<and>
           r_usages (chat_process b userId ans s) =
             (case usage_of d of
                None \<Rightarrow> s_usages s
              | Some u \<Rightarrow>
                  (case a_userObjectId ans of
                     Throws e \<Rightarrow> s_usages s
                   | Returns userObjectId \<Rightarrow>
                       insertChatUsage userObjectId (b_roomId b) (c_id m2) (m_id d) u (s_usages s))) \<and>
           reconcile \<lparr> l_lastResponse = last_partial (a_partials ans),
                       l_result = (case a_result ans of Returns x \<Rightarrow> x | Throws e \<Rightarrow> None),
                       l_message = Some m2 \<rparr> = Val d2"
    by (elim exE) (erule that)
  from big have same: "Some (c_id m) = Some (c_id m2)" by (elim conjE)
  from big have turn: "if b_regenerate b
            then getChat (b_roomId b) (b_uuid b) (s_chats s) = Some m2 \<and>
                 r_chats (chat_process b userId ans s) =
                   updateChat (Some (c_id m)) (m_text d) (m_id d) (m_conversationId d) (usage_of d) pv
                     (s_chats s)
            else m2 = new_chat (s_nextId s) (s_now s) (b_uuid b) (b_prompt b) (b_roomId b) (b_options b) \<and>
                 r_chats (chat_process b userId ans s) =
                   updateChat (Some (c_id m)) (m_text d) (m_id d) (m_conversationId d) (usage_of d) pv
                     (s_chats s @ [m2])"
    by (elim conjE)
  define C where "C = (if b_regenerate b then s_chats s else s_chats s @ [m2])"
  have chats: "r_chats (chat_process b userId ans s) =
                 updateChat (Some (c_id m)) (m_text d) (m_id d) (m_conversationId d) (usage_of d) pv C"
    using turn by (simp add: C_def split: if_splits)
  have "m2 \<in> set C"
  proof (cases "b_regenerate b")
    case True
    with turn have "getChat (b_roomId b) (b_uuid b) (s_chats s) = Some m2" by simp
    then have "m2 \<in> set (s_chats s)" by (rule getChat_member)
    with True show ?thesis by (simp add: C_def)
  next
    case False
    then show ?thesis by (simp add: C_def)
  qed
  then have "c_id m2 \<in> c_id ` set C" by (rule imageI)
  then have "c_id m \<in> set (map c_id (r_chats (chat_process b userId ans s)))"
    using same by (simp add: chats updateChat_ids)
  then obtain x where "x \<in> set (r_chats (chat_process b userId ans s))" "c_id x = c_id m"
    by auto
  then have ex: "\<exists>x \<in> set (r_chats (chat_process b userId ans s)). c_id x = q_messageId opts"
    unfolding q by blast
  have all: "\<forall>x \<in> set (r_chats (chat_process b userId ans s)). c_id x = q_messageId opts \<longrightarrow>
            c_response x = m_text d \<and> o_messageId (c_options x) = m_id d \<and>
            o_conversationId (c_options x) = m_conversationId d"
  proof (intro ballI impI)
    fix x assume "x \<in> set (r_chats (chat_process b userId ans s))" "c_id x = q_messageId opts"
    then show "c_response x = m_text d \<and> o_messageId (c_options x) = m_id d \<and>
            o_conversationId (c_options x) = m_conversationId d"
      unfolding chats q by (rule updateChat_member)
  qed
  from upd have upd': "\<exists>pv. UpdateChat (Some (q_messageId opts)) (m_text d) (m_id d) (m_conversationId d)
                 (usage_of d) pv \<in> set (r_calls (chat_process b userId ans s))"
    unfolding q by (rule exI)
  from upd' ex all show ?thesis by (intro conjI)
qed

subsection \<open>The usage object of a history entry\<close>

lemma num_or_null_cases:
  "num_or_null x = (if x = Some 0 then None else x)"
  by (cases x) (simp_all add: num_or_null_def truthy_num_def)

lemma bool_or_null_cases:
  "bool_or_null x = (if x = Some True then Some True else None)"
  by (cases x) (simp_all add: bool_or_null_def truthy_bool_def)

lemma usage_of_options_cases:
  "usage_of_options opts =
     (case o_completion_tokens opts of
        None \<Rightarrow> None
      | Some n \<Rightarrow>
          if n = 0 then None
          else Some \<lparr> v_completion_tokens = Some n,
                      v_prompt_tokens =
                        (if o_prompt_tokens opts = Some 0 then None else o_prompt_tokens opts),
                      v_total_tokens =
                        (if o_total_tokens opts = Some 0 then None else o_total_tokens opts),
                      v_estimated =
                        (if o_estimated opts = Some True then Some True else None) \<rparr>)"
  by (cases "o_completion_tokens opts")
     (simp_all add: usage_of_options_def truthy_num_def num_or_null_cases bool_or_null_cases
        del: if_split cong: if_cong)

subsection \<open>The response once the room lookup has answered\<close>

text \<open>When \<^verbatim>\<open>getChatRoom\<close> answers, the response is ended and its last chunk is not a
  partial event: it is \<^verbatim>\<open>JSON.stringify(result.data)\<close> of the result the backend call
  resolved with, or the error chunk of the catch block, or the \<^verbatim>\<open>Fail\<close> body of the
  audit.\<close>

lemma response_ended_when_room_answers:
  assumes "a_room ans = Returns room"
  shows "r_ended (chat_process b userId ans s)"
    and "r_body (chat_process b userId ans s) \<noteq> []"
    and "(case snd (last (r_body (chat_process b userId ans s))) of
            PartialJson k \<Rightarrow> False
          | DataJson d \<Rightarrow> (\<exists>res. a_result ans = Returns (Some res) \<and> d = rr_data res)
          | ErrorJson e \<Rightarrow> True
          | SendJson st msg \<Rightarrow> st = ''Fail'' \<and> msg = sensitive_message)"
  by (auto simp: chat_process_alt [OF assms] finally_response catch_fields try_defs fields Let_def
        split_beta split: option.splits outcome.splits if_splits)

subsection \<open>Evaluating the examples\<close>

lemmas eval_defs = chat_process_def chat_process_try_def proceed_def stream_def obtain_message_def
  chat_process_catch_def chat_process_finally_def reconcile_def usage_of_def
  pushed_previousResponse_def partial_chunks_def last_partial_def chuck_of_def
  resolve_systemMessage_def isNotEmptyString_def audit_on_def no_locals_def truthy_str_def
  start_def store_of_def run_ops getChat_def new_chat_def updateChat_def update_row_def
  insertChatUsage_def chat_abort_def abortChatProcess_def Let_def

lemmas ex_defs = ex_unreachable_def ex_refused_def ex_no_options_def ex_event_def ex_usage_def ex_zero_usage_def ex_data_def
  ex_success_def ex_failure_def ex_request_def ex_answers_def ex_store_def ex_unanswered_def
  ex_answered_options_def ex_answered_def ex_store_with_def ex_branched_def

lemma ex_regenerate_calls:
  "UpdateChat (Some 0) (Some ''The answer is 4.'') (Some ''m1'') (Some ''c1'') None
     (Some [\<lparr> p_response = Some ''2+2=4'', p_options = ex_answered_options \<rparr>])
   \<in> set (r_calls (chat_process (ex_request True) ex_userId
       (ex_answers [] (ex_success (ex_data ''The answer is 4.'' None))) (ex_store_with ex_answered)))"
  by (simp add: eval_defs ex_defs)

subsection \<open>Usage rows and the update call\<close>





section \<open>The claims\<close>

subsection \<open>C1: a regeneration appends the previous answer to the branch list\<close>

text \<open>
  \<^bold>\<open>C1 (as stated, refuted)\<close>. Not every regenerate request that
  finalizes appends a branch entry. The user aborts the turn with the closing
  text \<open>stopped\<close> before any event arrived, so with an empty message id;
  \<^verbatim>\<open>/chat-abort\<close> writes both. The regeneration of that turn finds
  \<^verbatim>\<open>message.options.messageId\<close> falsy, takes the branch without
  \<^verbatim>\<open>previousResponse\<close>, and overwrites \<open>stopped\<close>: the
  update is made, the branch list is still undefined.
\<close>

theorem regenerate_without_message_id_counterexample:
  "s_chats (store_of (chat_abort ex_userId ''stopped'' [] []
      ((ex_store_with ex_unanswered) \<lparr> s_abortMap := [ex_userId \<mapsto> (0, False)] \<rparr>)))
     = [ex_unanswered \<lparr> c_response := Some ''stopped'',
          c_options := ex_no_options \<lparr> o_messageId := Some [], o_conversationId := Some [] \<rparr> \<rparr>] \<and>
   r_calls (chat_process (ex_request True) ex_userId
       (ex_answers [] (ex_success (ex_data ''The answer is 4.'' None)))
       (ex_store_with (ex_unanswered \<lparr> c_response := Some ''stopped'',
          c_options := ex_no_options \<lparr> o_messageId := Some [], o_conversationId := Some [] \<rparr> \<rparr>)))
     = [GetChat 1 1002, GetRandomApiKey ''gpt-3.5-turbo'',
        ChatReplyProcess \<lparr> q_message = ''2+2?'', q_lastContext = ex_no_options,
          q_systemMessage = Some ''Be brief.'', q_temperature = None, q_top_p = None,
          q_chatModel = ''gpt-3.5-turbo'', q_key = Some ''sk-1'', q_userId = ex_userId, q_messageId = 0 \<rparr>,
        UpdateChat (Some 0) (Some ''The answer is 4.'') (Some ''m1'') (Some ''c1'') None None] \<and>
   map c_response (r_chats (chat_process (ex_request True) ex_userId
       (ex_answers [] (ex_success (ex_data ''The answer is 4.'' None)))
       (ex_store_with (ex_unanswered \<lparr> c_response := Some ''stopped'',
          c_options := ex_no_options \<lparr> o_messageId := Some [], o_conversationId := Some [] \<rparr> \<rparr>))))
     = [Some ''The answer is 4.''] \<and>
   map c_previousResponse (r_chats (chat_process (ex_request True) ex_userId
       (ex_answers [] (ex_success (ex_data ''The answer is 4.'' None)))
       (ex_store_with (ex_unanswered \<lparr> c_response := Some ''stopped'',
          c_options := ex_no_options \<lparr> o_messageId := Some [], o_conversationId := Some [] \<rparr> \<rparr>))))
     = [Undefined]"
  by (simp add: eval_defs ex_defs)

text \<open>
  \<^bold>\<open>C1 (amended)\<close>. When a regenerate request on an existing turn
  \<open>m\<close> reaches the update of the finally block (the call \<open>UpdateChat i t mi cv us pv\<close>),
  the stored turn gets the new response text, and its branch list (the \<open>pv\<close>
  passed to \<^verbatim>\<open>updateChat\<close>) is the old one with exactly one entry
  appended at the end, holding the response text and the options \<open>m\<close> had
  before, if the stored options of \<open>m\<close> carry a non-empty
  \<^verbatim>\<open>messageId\<close>; otherwise the branch list is left as it was. Earlier
  entries keep their place and content: the new list is the old list followed by the entry.
\<close>

theorem regenerate_branch_entry:
  assumes "b_regenerate b" and "getChat (b_roomId b) (b_uuid b) (s_chats s) = Some m"
      and "UpdateChat i t mi cv us pv \<in> set (r_calls (chat_process b userId ans s))"
  shows "\<exists>m'. getChat (b_roomId b) (b_uuid b) (r_chats (chat_process b userId ans s)) = Some m' \<and>
              c_response m' = t \<and>
              pv =
                (if truthy_str (o_messageId (c_options m))
                 then Some ((case c_previousResponse m of Val ps \<Rightarrow> ps | Undefined \<Rightarrow> [] | Null \<Rightarrow> []) @
                            [\<lparr> p_response = c_response m, p_options = c_options m \<rparr>])
                 else None) \<and>
              c_previousResponse m' =
                (if truthy_str (o_messageId (c_options m))
                 then Val ((case c_previousResponse m of Val ps \<Rightarrow> ps | Undefined \<Rightarrow> [] | Null \<Rightarrow> []) @
                            [\<lparr> p_response = c_response m, p_options = c_options m \<rparr>])
                 else c_previousResponse m)"
proof -
  from update_call_shape [OF assms(3)] assms(1,2)
  have i: "i = Some (c_id m)"
    and pv: "pv = (if truthy_str (o_messageId (c_options m))
                   then Some (pushed_previousResponse m) else None)"
    and chats: "r_chats (chat_process b userId ans s) = updateChat i t mi cv us pv (s_chats s)"
    by auto
  have "getChat (b_roomId b) (b_uuid b) (r_chats (chat_process b userId ans s)) =
          Some (update_row t mi cv us pv m)"
    by (simp add: chats getChat_updateChat assms(2) i)
  moreover have "c_response (update_row t mi cv us pv m) = t"
    by (simp add: update_row_fields)
  moreover have "c_previousResponse (update_row t mi cv us pv m) =
                (if truthy_str (o_messageId (c_options m))
                 then Val ((case c_previousResponse m of Val ps \<Rightarrow> ps | Undefined \<Rightarrow> [] | Null \<Rightarrow> []) @
                            [\<lparr> p_response = c_response m, p_options = c_options m \<rparr>])
                 else c_previousResponse m)"
    by (simp add: update_row_fields pv pushed_previousResponse_def)
  moreover have "pv =
                (if truthy_str (o_messageId (c_options m))
                 then Some ((case c_previousResponse m of Val ps \<Rightarrow> ps | Undefined \<Rightarrow> [] | Null \<Rightarrow> []) @
                            [\<lparr> p_response = c_response m, p_options = c_options m \<rparr>])
                 else None)"
    by (simp add: pv pushed_previousResponse_def)
  ultimately show ?thesis by blast
qed

text \<open>
  \<^bold>\<open>C1, witness\<close>. The spec's scenario B: the turn answered
  \<open>2+2=4\<close> is regenerated; the stored turn then answers \<open>The answer is 4.\<close>
  and has one branch, \<open>2+2=4\<close> with the options of that answer.
\<close>

theorem regenerate_branch_entry_witness:
  "b_regenerate (ex_request True) \<and>
   getChat (b_roomId (ex_request True)) (b_uuid (ex_request True)) (s_chats (ex_store_with ex_answered))
     = Some ex_answered \<and>
   (\<exists>m'. getChat (b_roomId (ex_request True)) (b_uuid (ex_request True))
            (r_chats (chat_process (ex_request True) ex_userId
               (ex_answers [] (ex_success (ex_data ''The answer is 4.'' None)))
               (ex_store_with ex_answered))) = Some m' \<and>
         c_response m' = Some ''The answer is 4.'' \<and>
         c_previousResponse m' = Val [\<lparr> p_response = Some ''2+2=4'', p_options = ex_answered_options \<rparr>])"
proof -
  have h1: "b_regenerate (ex_request True)" by (simp add: ex_request_def)
  have h2: "getChat (b_roomId (ex_request True)) (b_uuid (ex_request True))
              (s_chats (ex_store_with ex_answered)) = Some ex_answered"
    by (simp add: ex_defs getChat_def new_chat_def)
  have t: "truthy_str (o_messageId ex_answered_options)"
          "c_previousResponse ex_answered = Undefined" "c_response ex_answered = Some ''2+2=4''"
          "c_options ex_answered = ex_answered_options"
    by (simp_all add: ex_defs truthy_str_def new_chat_def)
  from regenerate_branch_entry [OF h1 h2 ex_regenerate_calls] h1 h2 show ?thesis
    by (simp add: t)
qed

subsection \<open>C2: a sensitive prompt is refused before anything is persisted\<close>

text \<open>
  \<^bold>\<open>C2\<close>. When the room lookup has answered, auditing is enabled
  (\<^verbatim>\<open>enabled\<close> or \<^verbatim>\<open>customizeEnabled\<close>), the user is not Admin and
  \<^verbatim>\<open>containsSensitiveWords\<close> answers true, the response is exactly
  the failure \<^verbatim>\<open>Contains sensitive words\<close>, and the only collaborator
  call is the audit itself: no turn is loaded, inserted or updated, no usage row is written,
  no key is selected, the backend is not called, and the rows of the store are those it had.
\<close>

theorem sensitive_prompt_no_side_effects:
  assumes "a_room ans = Returns room"
      and "audit_on (a_auditConfig ans)" and "a_user ans = Some user"
      and "Admin \<notin> set (user_roles user)" and "a_sensitive ans"
  shows "r_body (chat_process b userId ans s) = [(False, SendJson ''Fail'' sensitive_message)] \<and>
         r_ended (chat_process b userId ans s) \<and>
         r_calls (chat_process b userId ans s) = [ContainsSensitiveWords (b_prompt b)] \<and>
         r_chats (chat_process b userId ans s) = s_chats s \<and>
         r_usages (chat_process b userId ans s) = s_usages s"
proof -
  define r0 where "r0 = (case room of
               None \<Rightarrow> console (UnableToGetChatRoom userId (b_roomId b)) (start s)
             | Some rm \<Rightarrow> start s)"
  have r0: "r_calls r0 = []" "r_chats r0 = s_chats s" "r_usages r0 = s_usages s" "r_body r0 = []"
    unfolding r0_def by (rule entry_fields)+
  have tr: "chat_process_try b userId (resolve_systemMessage room (b_systemMessage b)) ans r0 =
               (Returned, no_locals,
                res_send (SendJson ''Fail'' sensitive_message)
                  (called (ContainsSensitiveWords (b_prompt b)) r0))"
    using assms(2-5) by (simp add: chat_process_try_def)
  have "chat_process b userId ans s =
          chat_process_finally b (a_userObjectId ans) no_locals
            (res_send (SendJson ''Fail'' sensitive_message)
               (called (ContainsSensitiveWords (b_prompt b)) r0))"
    using tr assms(1) by (simp add: chat_process_def r0_def chat_process_catch_def)
  then show ?thesis
    by (simp add: finally_response finally_calls finally_chats finally_usages reconcile_no_locals
          fields r0)
qed

text \<open>
  \<^bold>\<open>C2, witness\<close>. A non-Admin user, auditing enabled, a prompt the audit
  flags.
\<close>

theorem sensitive_prompt_no_side_effects_witness:
  "audit_on (a_auditConfig ((ex_answers [] (ex_success (ex_data ''2+2=4'' None)))
      \<lparr> a_auditConfig := \<lparr> ac_enabled = True, ac_customizeEnabled = False \<rparr>, a_sensitive := True \<rparr>)) \<and>
   Admin \<notin> set [OtherRole 0] \<and>
   r_body (chat_process (ex_request False) ex_userId
     ((ex_answers [] (ex_success (ex_data ''2+2=4'' None)))
        \<lparr> a_auditConfig := \<lparr> ac_enabled = True, ac_customizeEnabled = False \<rparr>, a_sensitive := True \<rparr>)
     ex_store) = [(False, SendJson ''Fail'' sensitive_message)] \<and>
   r_calls (chat_process (ex_request False) ex_userId
     ((ex_answers [] (ex_success (ex_data ''2+2=4'' None)))
        \<lparr> a_auditConfig := \<lparr> ac_enabled = True, ac_customizeEnabled = False \<rparr>, a_sensitive := True \<rparr>)
     ex_store) = [ContainsSensitiveWords ''2+2?''] \<and>
   r_chats (chat_process (ex_request False) ex_userId
     ((ex_answers [] (ex_success (ex_data ''2+2=4'' None)))
        \<lparr> a_auditConfig := \<lparr> ac_enabled = True, ac_customizeEnabled = False \<rparr>, a_sensitive := True \<rparr>)
     ex_store) = [] \<and>
   r_usages (chat_process (ex_request False) ex_userId
     ((ex_answers [] (ex_success (ex_data ''2+2=4'' None)))
        \<lparr> a_auditConfig := \<lparr> ac_enabled = True, ac_customizeEnabled = False \<rparr>, a_sensitive := True \<rparr>)
     ex_store) = []"
proof -
  let ?A = "(ex_answers [] (ex_success (ex_data ''2+2=4'' None)))
        \<lparr> a_auditConfig := \<lparr> ac_enabled = True, ac_customizeEnabled = False \<rparr>, a_sensitive := True \<rparr>"
  have h0: "a_room ?A = Returns (Some \<lparr> room_prompt = None, room_usingContext = None \<rparr>)"
    by (simp add: ex_answers_def)
  have h1: "audit_on (a_auditConfig ?A)" by (simp add: audit_on_def)
  have h2: "a_user ?A = Some \<lparr> user_roles = [OtherRole 0], user_chatModel = ''gpt-3.5-turbo'' \<rparr>"
    by (simp add: ex_answers_def)
  have h3: "Admin \<notin> set (user_roles \<lparr> user_roles = [OtherRole 0], user_chatModel = ''gpt-3.5-turbo'' \<rparr>)"
    by simp
  have h4: "a_sensitive ?A" by simp
  from sensitive_prompt_no_side_effects [OF h0 h1 h2 h3 h4, of "ex_request False" ex_userId ex_store] h1 show ?thesis
    by (simp add: ex_request_def ex_store_def)
qed

subsection \<open>C3: a request on a room that is missing or not the caller's\<close>

text \<open>
  \<^bold>\<open>C3\<close>. The handler does not refuse a request whose room is missing or
  not the caller's. With \<^verbatim>\<open>getChatRoom\<close> answering \<^verbatim>\<open>null\<close> it writes the
  console line \<^verbatim>\<open>Unable to get chat room\<close> and goes on: the request of the example
  is audited, its turn is inserted, a key is selected, the backend is called and
  streams, the turn is updated and a usage row is written. The other room handlers of
  the file (\<^verbatim>\<open>/room-delete\<close>, \<^verbatim>\<open>/chat-delete\<close>, \<^verbatim>\<open>/chat-clear\<close>; lines 150, 297,
  326) refuse such a room with \<^verbatim>\<open>Unknow room\<close> and return.
\<close>

theorem missing_room_still_processed:
  "a_room ((ex_answers [ex_event ''2+2''] (ex_success (ex_data ''2+2=4'' (Some ex_usage))))
      \<lparr> a_room := Returns None,
        a_auditConfig := \<lparr> ac_enabled = True, ac_customizeEnabled = False \<rparr> \<rparr>) = Returns None \<and>
   r_console (chat_process (ex_request False) ex_userId
     ((ex_answers [ex_event ''2+2''] (ex_success (ex_data ''2+2=4'' (Some ex_usage))))
        \<lparr> a_room := Returns None,
          a_auditConfig := \<lparr> ac_enabled = True, ac_customizeEnabled = False \<rparr> \<rparr>)
     ex_store) = [UnableToGetChatRoom ex_userId 1] \<and>
   r_calls (chat_process (ex_request False) ex_userId
     ((ex_answers [ex_event ''2+2''] (ex_success (ex_data ''2+2=4'' (Some ex_usage))))
        \<lparr> a_room := Returns None,
          a_auditConfig := \<lparr> ac_enabled = True, ac_customizeEnabled = False \<rparr> \<rparr>)
     ex_store) =
     [ContainsSensitiveWords ''2+2?'',
      InsertChat 1002 ''2+2?'' 1 ex_no_options,
      GetRandomApiKey ''gpt-3.5-turbo'',
      ChatReplyProcess \<lparr> q_message = ''2+2?'', q_lastContext = ex_no_options,
          q_systemMessage = Some ''Be brief.'', q_temperature = None, q_top_p = None,
          q_chatModel = ''gpt-3.5-turbo'', q_key = Some ''sk-1'', q_userId = ex_userId,
          q_messageId = 0 \<rparr>,
      UpdateChat (Some 0) (Some ''2+2=4'') (Some ''m1'') (Some ''c1'') (Some ex_usage) None,
      InsertChatUsage ex_userId 1 0 (Some ''m1'') ex_usage] \<and>
   r_body (chat_process (ex_request False) ex_userId
     ((ex_answers [ex_event ''2+2''] (ex_success (ex_data ''2+2=4'' (Some ex_usage))))
        \<lparr> a_room := Returns None,
          a_auditConfig := \<lparr> ac_enabled = True, ac_customizeEnabled = False \<rparr> \<rparr>)
     ex_store) =
     [(False, PartialJson \<lparr> k_id = Some ''m1'', k_conversationId = Some ''c1'',
                            k_text = Some ''2+2'', k_finish_reason = None \<rparr>),
      (True, DataJson (Val (ex_data ''2+2=4'' (Some ex_usage))))] \<and>
   r_chats (chat_process (ex_request False) ex_userId
     ((ex_answers [ex_event ''2+2''] (ex_success (ex_data ''2+2=4'' (Some ex_usage))))
        \<lparr> a_room := Returns None,
          a_auditConfig := \<lparr> ac_enabled = True, ac_customizeEnabled = False \<rparr> \<rparr>)
     ex_store) = [ex_answered] \<and>
   r_usages (chat_process (ex_request False) ex_userId
     ((ex_answers [ex_event ''2+2''] (ex_success (ex_data ''2+2=4'' (Some ex_usage))))
        \<lparr> a_room := Returns None,
          a_auditConfig := \<lparr> ac_enabled = True, ac_customizeEnabled = False \<rparr> \<rparr>)
     ex_store) =
     [\<lparr> u_userId = ex_userId, u_roomId = 1, u_chatId = 0, u_messageId = Some ''m1'',
        u_promptTokens = 5, u_completionTokens = 3, u_totalTokens = 8, u_estimated = False \<rparr>]"
  by (simp add: eval_defs ex_defs)

subsection \<open>C4: what is persisted when the backend fails after partial events\<close>

text \<open>
  \<^bold>\<open>C4 (as stated, refuted)\<close>. The finally block distinguishes a backend
  call that rejects from one that resolves with a status other than
  \<^verbatim>\<open>Success\<close>. For the second it replaces
  \<^verbatim>\<open>lastResponse\<close> by \<^verbatim>\<open>{ text: result.message }\<close>:
  after the partial event \<open>2+2\<close> and the result \<^verbatim>\<open>{ status: Fail, message: boom }\<close>
  the persisted text is \<open>boom\<close>.
\<close>

theorem returned_failure_counterexample:
  "m_text (last (a_partials (ex_answers [ex_event ''2+2''] (ex_failure ''boom'')))) = Some ''2+2'' \<and>
   r_calls (chat_process (ex_request False) ex_userId
       (ex_answers [ex_event ''2+2''] (ex_failure ''boom'')) ex_store)
     = [InsertChat 1002 ''2+2?'' 1 ex_no_options,
        GetRandomApiKey ''gpt-3.5-turbo'',
        ChatReplyProcess \<lparr> q_message = ''2+2?'', q_lastContext = ex_no_options,
          q_systemMessage = Some ''Be brief.'', q_temperature = None, q_top_p = None,
          q_chatModel = ''gpt-3.5-turbo'', q_key = Some ''sk-1'', q_userId = ex_userId, q_messageId = 0 \<rparr>,
        UpdateChat (Some 0) (Some ''boom'') None None None None] \<and>
   map c_response (r_chats (chat_process (ex_request False) ex_userId
       (ex_answers [ex_event ''2+2''] (ex_failure ''boom'')) ex_store))
     = [Some ''boom'']"
  by (simp add: eval_defs ex_defs)

text \<open>
  \<^bold>\<open>C4 (amended)\<close>. For a request whose backend call was made for turn
  \<open>q_messageId opts\<close> and emitted at least one partial event: if the call
  rejects, the finally block updates that turn, the turn is in the store, and its persisted
  response text is the text of the last partial event; if the call resolves with a status
  other than \<^verbatim>\<open>Success\<close>, the turn is updated too, and its persisted
  response text is the message of that result.
\<close>

theorem backend_failure_persisted_text:
  assumes "ChatReplyProcess opts \<in> set (r_calls (chat_process b userId ans s))"
      and "a_partials ans \<noteq> []"
  shows "(\<forall>e. a_result ans = Throws e \<longrightarrow>
            (\<exists>pv. UpdateChat (Some (q_messageId opts)) (m_text (last (a_partials ans)))
                     (m_id (last (a_partials ans))) (m_conversationId (last (a_partials ans)))
                     (usage_of (last (a_partials ans))) pv
                   \<in> set (r_calls (chat_process b userId ans s))) \<and>
            (\<exists>x \<in> set (r_chats (chat_process b userId ans s)). c_id x = q_messageId opts) \<and>
            (\<forall>x \<in> set (r_chats (chat_process b userId ans s)). c_id x = q_messageId opts \<longrightarrow>
               c_response x = m_text (last (a_partials ans)))) \<and>
         (\<forall>res. a_result ans = Returns (Some res) \<and> rr_status res \<noteq> ''Success'' \<longrightarrow>
            (\<exists>pv. UpdateChat (Some (q_messageId opts)) (rr_message res) None None None pv
                   \<in> set (r_calls (chat_process b userId ans s))) \<and>
            (\<exists>x \<in> set (r_chats (chat_process b userId ans s)). c_id x = q_messageId opts) \<and>
            (\<forall>x \<in> set (r_chats (chat_process b userId ans s)). c_id x = q_messageId opts \<longrightarrow>
               c_response x = rr_message res))"
proof (intro conjI allI impI)
  fix e assume e: "a_result ans = Throws e"
  have rec: "reconcile \<lparr> l_lastResponse = last_partial (a_partials ans),
                       l_result = (case a_result ans of Returns x \<Rightarrow> x | Throws e \<Rightarrow> None),
                       l_message = Some m \<rparr> = Val (last (a_partials ans))" for m
    using e assms(2) by (simp add: reconcile_def last_partial_def)
  note P = persisted_after_backend_call [OF assms(1) rec]
  from P show "\<exists>pv. UpdateChat (Some (q_messageId opts)) (m_text (last (a_partials ans)))
                     (m_id (last (a_partials ans))) (m_conversationId (last (a_partials ans)))
                     (usage_of (last (a_partials ans))) pv
                   \<in> set (r_calls (chat_process b userId ans s))"
    by (elim conjE)
  from P show "\<exists>x \<in> set (r_chats (chat_process b userId ans s)). c_id x = q_messageId opts"
    by (elim conjE)
  from P show "\<forall>x \<in> set (r_chats (chat_process b userId ans s)). c_id x = q_messageId opts \<longrightarrow>
               c_response x = m_text (last (a_partials ans))"
    by simp
next
  fix res assume res: "a_result ans = Returns (Some res) \<and> rr_status res \<noteq> ''Success''"
  let ?d = "\<lparr> m_id = None, m_conversationId = None, m_text = rr_message res, m_detail = None \<rparr>"
  have rec: "reconcile \<lparr> l_lastResponse = last_partial (a_partials ans),
                       l_result = (case a_result ans of Returns x \<Rightarrow> x | Throws e \<Rightarrow> None),
                       l_message = Some m \<rparr> = Val ?d" for m
    using res by (simp add: reconcile_def)
  have d: "m_text ?d = rr_message res" "m_id ?d = None" "m_conversationId ?d = None"
          "usage_of ?d = None"
    by (simp_all add: usage_of_def)
  note P = persisted_after_backend_call [OF assms(1) rec, unfolded d]
  from P show "\<exists>pv. UpdateChat (Some (q_messageId opts)) (rr_message res) None None None pv
                   \<in> set (r_calls (chat_process b userId ans s))"
    by (elim conjE)
  from P show "\<exists>x \<in> set (r_chats (chat_process b userId ans s)). c_id x = q_messageId opts"
    by (elim conjE)
  from P show "\<forall>x \<in> set (r_chats (chat_process b userId ans s)). c_id x = q_messageId opts \<longrightarrow>
               c_response x = rr_message res"
    by simp
qed

text \<open>
  \<^bold>\<open>C4, witness\<close>. The backend emits \<open>2+2\<close> and
  \<open>2+2=\<close> and then rejects: the turn keeps \<open>2+2=\<close>.
\<close>

theorem backend_failure_persisted_text_witness:
  "a_partials (ex_answers [ex_event ''2+2'', ex_event ''2+2=''] (Throws (Rejection (Some ''socket hang up'')))) \<noteq> [] \<and>
   a_result (ex_answers [ex_event ''2+2'', ex_event ''2+2=''] (Throws (Rejection (Some ''socket hang up''))))
     = Throws (Rejection (Some ''socket hang up'')) \<and>
   (\<exists>opts. ChatReplyProcess opts \<in> set (r_calls (chat_process (ex_request False) ex_userId
        (ex_answers [ex_event ''2+2'', ex_event ''2+2=''] (Throws (Rejection (Some ''socket hang up''))))
        ex_store)) \<and>
      q_messageId opts = 0) \<and>
   (\<exists>x \<in> set (r_chats (chat_process (ex_request False) ex_userId
        (ex_answers [ex_event ''2+2'', ex_event ''2+2=''] (Throws (Rejection (Some ''socket hang up''))))
        ex_store)). c_id x = 0 \<and> c_response x = Some ''2+2='')"
proof -
  let ?A = "ex_answers [ex_event ''2+2'', ex_event ''2+2=''] (Throws (Rejection (Some ''socket hang up'')))"
  let ?opts = "\<lparr> q_message = ''2+2?'', q_lastContext = ex_no_options,
          q_systemMessage = Some ''Be brief.'', q_temperature = None, q_top_p = None,
          q_chatModel = ''gpt-3.5-turbo'', q_key = Some ''sk-1'', q_userId = ex_userId, q_messageId = 0 \<rparr>"
  have h1: "ChatReplyProcess ?opts \<in> set (r_calls (chat_process (ex_request False) ex_userId ?A ex_store))"
    by (simp add: eval_defs ex_defs)
  have h2: "a_partials ?A \<noteq> []" by (simp add: ex_answers_def)
  have h3: "a_result ?A = Throws (Rejection (Some ''socket hang up''))" by (simp add: ex_answers_def)
  have l: "m_text (last (a_partials ?A)) = Some ''2+2=''" by (simp add: ex_answers_def ex_event_def)
  from backend_failure_persisted_text [OF h1 h2] h3 l
  have "(\<exists>x \<in> set (r_chats (chat_process (ex_request False) ex_userId ?A ex_store)). c_id x = 0) \<and>
        (\<forall>x \<in> set (r_chats (chat_process (ex_request False) ex_userId ?A ex_store)). c_id x = 0 \<longrightarrow>
           c_response x = Some ''2+2='')"
    by simp
  then have "\<exists>x \<in> set (r_chats (chat_process (ex_request False) ex_userId ?A ex_store)).
               c_id x = 0 \<and> c_response x = Some ''2+2=''"
    by blast
  with h1 h2 h3 show ?thesis by (intro conjI exI [of _ ?opts]) simp_all
qed

subsection \<open>C5: the abort endpoint\<close>

text \<open>
  \<^bold>\<open>C5\<close>. For every call of \<^verbatim>\<open>/chat-abort\<close>: when
  the registry holds a turn for the caller, the rows with that turn's id get the caller's
  closing text, message id and conversation id and lose their usage counters, every other
  row and the usage rows are as they were, and the call answers
  \<^verbatim>\<open>Success\<close>; when the registry holds no turn for the caller, the
  call answers \<^verbatim>\<open>Success\<close> and leaves the store as it was, and so
  does a second call after it. (The handler passes the absent id to
  \<^verbatim>\<open>updateChat\<close>, which then addresses no row.)
\<close>

theorem chat_abort_effect:
  "(\<forall>msgId signalled. s_abortMap s userId = Some (msgId, signalled) \<longrightarrow>
      r_body (chat_abort userId txt messageId conversationId s) = [(False, SendJson ''Success'' ''OK'')] \<and>
      r_calls (chat_abort userId txt messageId conversationId s) =
        [AbortChatProcess userId,
         UpdateChat (Some msgId) (Some txt) (Some messageId) (Some conversationId) None None] \<and>
      r_chats (chat_abort userId txt messageId conversationId s) =
        map (\<lambda>c. if c_id c = msgId
                 then update_row (Some txt) (Some messageId) (Some conversationId) None None c
                 else c) (s_chats s) \<and>
      (\<forall>x \<in> set (r_chats (chat_abort userId txt messageId conversationId s)). c_id x = msgId \<longrightarrow>
         c_response x = Some txt \<and> o_messageId (c_options x) = Some messageId \<and>
         o_conversationId (c_options x) = Some conversationId \<and>
         o_prompt_tokens (c_options x) = None \<and> o_completion_tokens (c_options x) = None \<and>
         o_total_tokens (c_options x) = None) \<and>
      r_usages (chat_abort userId txt messageId conversationId s) = s_usages s) \<and>
   (s_abortMap s userId = None \<longrightarrow>
      r_body (chat_abort userId txt messageId conversationId s) = [(False, SendJson ''Success'' ''OK'')] \<and>
      store_of (chat_abort userId txt messageId conversationId s) = s \<and>
      r_body (chat_abort userId txt' messageId' conversationId'
                (store_of (chat_abort userId txt messageId conversationId s)))
        = [(False, SendJson ''Success'' ''OK'')] \<and>
      store_of (chat_abort userId txt' messageId' conversationId'
                  (store_of (chat_abort userId txt messageId conversationId s))) = s)"
proof (intro conjI allI impI)
  fix msgId signalled
  assume a: "s_abortMap s userId = Some (msgId, signalled)"
  let ?R = "chat_abort userId txt messageId conversationId s"
  from a have R: "?R = res_send (SendJson ''Success'' ''OK'')
      (do_updateChat (Some msgId) (Some txt) (Some messageId) (Some conversationId) None None
         (called (AbortChatProcess userId)
            ((start s) \<lparr> r_abortMap := (r_abortMap (start s))(userId \<mapsto> (msgId, True)) \<rparr>)))"
    by (simp add: chat_abort_def abortChatProcess_def start_fields)
  show "r_body ?R = [(False, SendJson ''Success'' ''OK'')]"
    by (simp add: R fields)
  show "r_calls ?R = [AbortChatProcess userId,
         UpdateChat (Some msgId) (Some txt) (Some messageId) (Some conversationId) None None]"
    by (simp add: R fields)
  show chats: "r_chats ?R = map (\<lambda>c. if c_id c = msgId
                 then update_row (Some txt) (Some messageId) (Some conversationId) None None c
                 else c) (s_chats s)"
    by (simp add: R fields updateChat_def)
  show "r_usages ?R = s_usages s"
    by (simp add: R fields)
  have chats': "r_chats ?R =
      updateChat (Some msgId) (Some txt) (Some messageId) (Some conversationId) None None (s_chats s)"
    by (simp add: R fields)
  show "\<forall>x \<in> set (r_chats ?R). c_id x = msgId \<longrightarrow>
         c_response x = Some txt \<and> o_messageId (c_options x) = Some messageId \<and>
         o_conversationId (c_options x) = Some conversationId \<and>
         o_prompt_tokens (c_options x) = None \<and> o_completion_tokens (c_options x) = None \<and>
         o_total_tokens (c_options x) = None"
  proof (intro ballI impI)
    fix x assume x: "x \<in> set (r_chats ?R)" "c_id x = msgId"
    from updateChat_member [OF x(1) [unfolded chats'] x(2)]
         updateChat_usage_member [OF x(1) [unfolded chats'] x(2)]
    show "c_response x = Some txt \<and> o_messageId (c_options x) = Some messageId \<and>
         o_conversationId (c_options x) = Some conversationId \<and>
         o_prompt_tokens (c_options x) = None \<and> o_completion_tokens (c_options x) = None \<and>
         o_total_tokens (c_options x) = None"
      by simp
  qed
next
  assume a: "s_abortMap s userId = None"
  have noop: "r_body (chat_abort userId t m c s) = [(False, SendJson ''Success'' ''OK'')] \<and>
              store_of (chat_abort userId t m c s) = s" for t m c
    using a by (simp add: chat_abort_def abortChatProcess_def start_fields fields updateChat_def
                  store_of_def)
  from noop show "r_body (chat_abort userId txt messageId conversationId s) = [(False, SendJson ''Success'' ''OK'')]"
    by simp
  from noop show "store_of (chat_abort userId txt messageId conversationId s) = s"
    by simp
  from noop show "r_body (chat_abort userId txt' messageId' conversationId'
                (store_of (chat_abort userId txt messageId conversationId s)))
        = [(False, SendJson ''Success'' ''OK'')]"
    by simp
  from noop show "store_of (chat_abort userId txt' messageId' conversationId'
                  (store_of (chat_abort userId txt messageId conversationId s))) = s"
    by simp
qed

text \<open>
  \<^bold>\<open>C5, witness\<close>. The spec's scenario C: the turn in flight for
  the user is aborted with \<open>stopped\<close>, \<open>m1\<close>,
  \<open>c1\<close>; and two aborts in a row with nothing in flight.
\<close>

theorem chat_abort_effect_witness:
  "s_abortMap ((ex_store_with ex_unanswered) \<lparr> s_abortMap := [ex_userId \<mapsto> (0, False)] \<rparr>) ex_userId
     = Some (0, False) \<and>
   r_chats (chat_abort ex_userId ''stopped'' ''m1'' ''c1''
              ((ex_store_with ex_unanswered) \<lparr> s_abortMap := [ex_userId \<mapsto> (0, False)] \<rparr>))
     = [ex_unanswered \<lparr> c_response := Some ''stopped'',
          c_options := ex_no_options \<lparr> o_messageId := Some ''m1'', o_conversationId := Some ''c1'' \<rparr> \<rparr>] \<and>
   s_abortMap (ex_store_with ex_answered) ex_userId = None \<and>
   store_of (chat_abort ex_userId ''stopped'' ''m1'' ''c1'' (ex_store_with ex_answered))
     = ex_store_with ex_answered \<and>
   store_of (chat_abort ex_userId ''again'' ''m2'' ''c2''
               (store_of (chat_abort ex_userId ''stopped'' ''m1'' ''c1'' (ex_store_with ex_answered))))
     = ex_store_with ex_answered"
proof -
  let ?S = "(ex_store_with ex_unanswered) \<lparr> s_abortMap := [ex_userId \<mapsto> (0, False)] \<rparr>"
  have h1: "s_abortMap ?S ex_userId = Some (0, False)" by simp
  have h2: "s_abortMap (ex_store_with ex_answered) ex_userId = None"
    by (simp add: ex_store_with_def ex_store_def)
  have row: "map (\<lambda>c. if c_id c = 0
                 then update_row (Some ''stopped'') (Some ''m1'') (Some ''c1'') None None c
                 else c) (s_chats ?S) =
      [ex_unanswered \<lparr> c_response := Some ''stopped'',
          c_options := ex_no_options \<lparr> o_messageId := Some ''m1'', o_conversationId := Some ''c1'' \<rparr> \<rparr>]"
    by (simp add: ex_defs new_chat_def update_row_def)
  from chat_abort_effect [of ?S "ex_userId" "''stopped''" "''m1''" "''c1''"] h1
  have a: "r_chats (chat_abort ex_userId ''stopped'' ''m1'' ''c1'' ?S) =
      [ex_unanswered \<lparr> c_response := Some ''stopped'',
          c_options := ex_no_options \<lparr> o_messageId := Some ''m1'', o_conversationId := Some ''c1'' \<rparr> \<rparr>]"
    by (simp only: row)
  let ?R = "chat_abort ex_userId ''stopped'' ''m1'' ''c1'' (ex_store_with ex_answered)"
  have "s_abortMap (ex_store_with ex_answered) ex_userId = None \<longrightarrow>
      r_body ?R = [(False, SendJson ''Success'' ''OK'')] \<and>
      store_of ?R = ex_store_with ex_answered \<and>
      r_body (chat_abort ex_userId ''again'' ''m2'' ''c2'' (store_of ?R))
        = [(False, SendJson ''Success'' ''OK'')] \<and>
      store_of (chat_abort ex_userId ''again'' ''m2'' ''c2'' (store_of ?R)) = ex_store_with ex_answered"
    using chat_abort_effect [of "ex_store_with ex_answered" "ex_userId" "''stopped''" "''m1''" "''c1''"
         "''again''" "''m2''" "''c2''"]
    by (elim conjE)
  from this h2
  have "r_body ?R = [(False, SendJson ''Success'' ''OK'')] \<and>
      store_of ?R = ex_store_with ex_answered \<and>
      r_body (chat_abort ex_userId ''again'' ''m2'' ''c2'' (store_of ?R))
        = [(False, SendJson ''Success'' ''OK'')] \<and>
      store_of (chat_abort ex_userId ''again'' ''m2'' ''c2'' (store_of ?R)) = ex_store_with ex_answered"
    by (rule mp)
  then have b: "store_of ?R = ex_store_with ex_answered \<and>
      store_of (chat_abort ex_userId ''again'' ''m2'' ''c2'' (store_of ?R)) = ex_store_with ex_answered"
    by (elim conjE, intro conjI)
  from h1 h2 a b show ?thesis by (elim conjE, intro conjI)
qed

subsection \<open>C6: the usage row of a finalized turn\<close>




subsection \<open>C7: the response always ends with a terminal chunk\<close>

text \<open>
  \<^bold>\<open>C7\<close>. Not every request that enters the handler gets a terminal chunk.
  \<^verbatim>\<open>await getChatRoom(userId, roomId)\<close> at line 384 is before the \<^verbatim>\<open>try\<close> of line
  392: when the room lookup rejects, neither the catch block nor the finally block runs.
  Nothing is written to the response, \<^verbatim>\<open>res.end()\<close> is not called, no collaborator is
  called, and the handler's promise rejects with the error of the lookup.
\<close>

theorem rejected_room_lookup_leaves_response_open:
  "a_room ((ex_answers [ex_event ''2+2''] (ex_success (ex_data ''2+2=4'' (Some ex_usage))))
      \<lparr> a_room := Throws ex_unreachable \<rparr>) = Throws ex_unreachable \<and>
   r_body (chat_process (ex_request False) ex_userId
     ((ex_answers [ex_event ''2+2''] (ex_success (ex_data ''2+2=4'' (Some ex_usage))))
        \<lparr> a_room := Throws ex_unreachable \<rparr>) ex_store) = [] \<and>
   r_ended (chat_process (ex_request False) ex_userId
     ((ex_answers [ex_event ''2+2''] (ex_success (ex_data ''2+2=4'' (Some ex_usage))))
        \<lparr> a_room := Throws ex_unreachable \<rparr>) ex_store) = False \<and>
   r_calls (chat_process (ex_request False) ex_userId
     ((ex_answers [ex_event ''2+2''] (ex_success (ex_data ''2+2=4'' (Some ex_usage))))
        \<lparr> a_room := Throws ex_unreachable \<rparr>) ex_store) = [] \<and>
   r_console (chat_process (ex_request False) ex_userId
     ((ex_answers [ex_event ''2+2''] (ex_success (ex_data ''2+2=4'' (Some ex_usage))))
        \<lparr> a_room := Throws ex_unreachable \<rparr>) ex_store) = [] \<and>
   r_rejected (chat_process (ex_request False) ex_userId
     ((ex_answers [ex_event ''2+2''] (ex_success (ex_data ''2+2=4'' (Some ex_usage))))
        \<lparr> a_room := Throws ex_unreachable \<rparr>) ex_store) = Some ex_unreachable"
  by (simp add: eval_defs ex_defs)

subsection \<open>C8: the room's prompt overrides the caller's system message\<close>

text \<open>
  \<^bold>\<open>C8\<close>. Whenever the handler calls the completion backend, the
  \<^verbatim>\<open>systemMessage\<close> it passes is the room's prompt if the room was
  found and its prompt is a non-empty string, and the caller's
  \<^verbatim>\<open>systemMessage\<close>, unchanged, if there is no room or its prompt is
  not a non-empty string.
\<close>

theorem system_message_resolution:
  assumes "ChatReplyProcess opts \<in> set (r_calls (chat_process b userId ans s))"
  shows "(\<forall>rm. a_room ans = Returns (Some rm) \<and> isNotEmptyString (room_prompt rm) \<longrightarrow>
            q_systemMessage opts = room_prompt rm) \<and>
         ((\<forall>rm. a_room ans = Returns (Some rm) \<longrightarrow> \<not> isNotEmptyString (room_prompt rm)) \<longrightarrow>
            q_systemMessage opts = b_systemMessage b)"
proof -
  from backend_call_shape [OF assms] obtain room
    where "a_room ans = Returns room"
      and "q_systemMessage opts = resolve_systemMessage room (b_systemMessage b)"
    by blast
  then show ?thesis
    by (cases room) (simp_all add: resolve_systemMessage_def)
qed

text \<open>
  \<^bold>\<open>C8, witness\<close>. A room with the prompt \<open>You are a pirate.\<close>
  and a caller who sends \<open>Be brief.\<close>.
\<close>

theorem system_message_resolution_witness:
  "isNotEmptyString (Some ''You are a pirate.'') \<and>
   b_systemMessage (ex_request False) = Some ''Be brief.'' \<and>
   (\<exists>opts. ChatReplyProcess opts \<in> set (r_calls (chat_process (ex_request False) ex_userId
        ((ex_answers [] (ex_success (ex_data ''2+2=4'' None)))
           \<lparr> a_room := Returns (Some \<lparr> room_prompt = Some ''You are a pirate.'',
                                      room_usingContext = None \<rparr>) \<rparr>)
        ex_store)) \<and>
      q_systemMessage opts = Some ''You are a pirate.'')"
proof -
  let ?A = "(ex_answers [] (ex_success (ex_data ''2+2=4'' None)))
           \<lparr> a_room := Returns (Some \<lparr> room_prompt = Some ''You are a pirate.'',
                                      room_usingContext = None \<rparr>) \<rparr>"
  obtain opts where h: "ChatReplyProcess opts \<in> set (r_calls (chat_process (ex_request False) ex_userId ?A ex_store))"
    by (simp add: eval_defs ex_defs)
  have n: "isNotEmptyString (Some ''You are a pirate.'')" by (simp add: isNotEmptyString_def)
  from system_message_resolution [OF h] n
  have "q_systemMessage opts = Some ''You are a pirate.''" by simp
  with h n show ?thesis by (auto simp: ex_request_def)
qed

subsection \<open>C9: the index of \<^verbatim>\<open>/chat-response-history\<close>\<close>

text \<open>
  \<^bold>\<open>C9\<close>. For a known room, an existing turn \<open>c\<close> with a defined branch list
  \<open>ps\<close> of length \<open>L\<close> and a natural-number index \<open>i\<close>: the query fails with
  \<^verbatim>\<open>Error\<close> when \<open>i > L\<close>; when \<open>i = L\<close> it returns the current response text of
  the turn with the turn's options; when \<open>i < L\<close> it returns the response text and the
  options of the \<open>i\<close>-th entry of the branch list, oldest first. In both the entry sent
  has the turn's sequence id, time and prompt, the response count \<open>L + 1\<close>, the message
  and conversation ids of the selected options, and a usage object exactly when the
  completion-token count of the selected options is defined and not 0: then it holds
  that count, the prompt and total counts where they are defined and not 0, and
  \<^verbatim>\<open>estimated\<close> where it is \<^verbatim>\<open>true\<close>.
\<close>

theorem response_history_index:
  assumes "roomId \<noteq> 0" and "roomExists" and "c_previousResponse c = Val ps"
  shows "(length ps < index \<longrightarrow>
            chat_response_history roomId roomExists (Some c) index = Fail ''Error'') \<and>
         (index = length ps \<longrightarrow>
            (let opts = c_options c
             in chat_response_history roomId roomExists (Some c) index =
                  Success (Entry
                    \<lparr> h_uuid = c_uuid c, h_dateTime = c_dateTime c, h_text = c_response c,
                      h_inversion = False, h_error = False, h_loading = Some False,
                      h_responseCount = Some (length ps + 1),
                      h_conversationOptions =
                        Some \<lparr> co_parentMessageId = o_messageId opts,
                               co_conversationId = o_conversationId opts \<rparr>,
                      h_request_prompt = c_prompt c,
                      h_request_parentMessageId = o_parentMessageId opts,
                      h_request_options =
                        Some \<lparr> co_parentMessageId = o_messageId opts,
                               co_conversationId = o_conversationId opts \<rparr>,
                      h_usage =
                        (case o_completion_tokens opts of
                           None \<Rightarrow> None
                         | Some n \<Rightarrow>
                             if n = 0 then None
                             else Some \<lparr> v_completion_tokens = Some n,
                                         v_prompt_tokens =
                                           (if o_prompt_tokens opts = Some 0 then None
                                            else o_prompt_tokens opts),
                                         v_total_tokens =
                                           (if o_total_tokens opts = Some 0 then None
                                            else o_total_tokens opts),
                                         v_estimated =
                                           (if o_estimated opts = Some True then Some True
                                            else None) \<rparr>) \<rparr>))) \<and>
         (index < length ps \<longrightarrow>
            (let opts = p_options (ps ! index)
             in chat_response_history roomId roomExists (Some c) index =
                  Success (Entry
                    \<lparr> h_uuid = c_uuid c, h_dateTime = c_dateTime c,
                      h_text = p_response (ps ! index),
                      h_inversion = False, h_error = False, h_loading = Some False,
                      h_responseCount = Some (length ps + 1),
                      h_conversationOptions =
                        Some \<lparr> co_parentMessageId = o_messageId opts,
                               co_conversationId = o_conversationId opts \<rparr>,
                      h_request_prompt = c_prompt c,
                      h_request_parentMessageId = o_parentMessageId opts,
                      h_request_options =
                        Some \<lparr> co_parentMessageId = o_messageId opts,
                               co_conversationId = o_conversationId opts \<rparr>,
                      h_usage =
                        (case o_completion_tokens opts of
                           None \<Rightarrow> None
                         | Some n \<Rightarrow>
                             if n = 0 then None
                             else Some \<lparr> v_completion_tokens = Some n,
                                         v_prompt_tokens =
                                           (if o_prompt_tokens opts = Some 0 then None
                                            else o_prompt_tokens opts),
                                         v_total_tokens =
                                           (if o_total_tokens opts = Some 0 then None
                                            else o_total_tokens opts),
                                         v_estimated =
                                           (if o_estimated opts = Some True then Some True
                                            else None) \<rparr>) \<rparr>)))"
  using assms
  by (simp add: chat_response_history_def response_entry_def responseCount_def
        usage_of_options_cases Let_def del: if_split)

text \<open>
  \<^bold>\<open>C9, witness\<close>. The turn with two retained answers, in room 1: index 3
  fails; index 2 is the current answer \<open>Four.\<close> with usage 5, 3, 8; index 0 is the
  oldest retained answer, \<open>2+2=4\<close>, with usage 5, 3, 8; index 1 is the retained answer
  \<open>The answer is 4.\<close>, which has no usage.
\<close>

theorem response_history_index_witness:
  "c_previousResponse ex_branched =
     Val [\<lparr> p_response = Some ''2+2=4'', p_options = ex_answered_options \<rparr>,
          \<lparr> p_response = Some ''The answer is 4.'', p_options = ex_no_options \<rparr>] \<and>
   chat_response_history 1 True (Some ex_branched) 3 = Fail ''Error'' \<and>
   chat_response_history 1 True (Some ex_branched) 2 =
     Success (Entry
       \<lparr> h_uuid = 1002, h_dateTime = 0, h_text = Some ''Four.'',
         h_inversion = False, h_error = False, h_loading = Some False,
         h_responseCount = Some 3,
         h_conversationOptions =
           Some \<lparr> co_parentMessageId = Some ''m1'', co_conversationId = Some ''c1'' \<rparr>,
         h_request_prompt = ''2+2?'', h_request_parentMessageId = None,
         h_request_options =
           Some \<lparr> co_parentMessageId = Some ''m1'', co_conversationId = Some ''c1'' \<rparr>,
         h_usage = Some \<lparr> v_completion_tokens = Some 3, v_prompt_tokens = Some 5,
                           v_total_tokens = Some 8, v_estimated = None \<rparr> \<rparr>) \<and>
   chat_response_history 1 True (Some ex_branched) 0 =
     Success (Entry
       \<lparr> h_uuid = 1002, h_dateTime = 0, h_text = Some ''2+2=4'',
         h_inversion = False, h_error = False, h_loading = Some False,
         h_responseCount = Some 3,
         h_conversationOptions =
           Some \<lparr> co_parentMessageId = Some ''m1'', co_conversationId = Some ''c1'' \<rparr>,
         h_request_prompt = ''2+2?'', h_request_parentMessageId = None,
         h_request_options =
           Some \<lparr> co_parentMessageId = Some ''m1'', co_conversationId = Some ''c1'' \<rparr>,
         h_usage = Some \<lparr> v_completion_tokens = Some 3, v_prompt_tokens = Some 5,
                           v_total_tokens = Some 8, v_estimated = None \<rparr> \<rparr>) \<and>
   chat_response_history 1 True (Some ex_branched) 1 =
     Success (Entry
       \<lparr> h_uuid = 1002, h_dateTime = 0, h_text = Some ''The answer is 4.'',
         h_inversion = False, h_error = False, h_loading = Some False,
         h_responseCount = Some 3,
         h_conversationOptions =
           Some \<lparr> co_parentMessageId = None, co_conversationId = None \<rparr>,
         h_request_prompt = ''2+2?'', h_request_parentMessageId = None,
         h_request_options =
           Some \<lparr> co_parentMessageId = None, co_conversationId = None \<rparr>,
         h_usage = None \<rparr>)"
proof -
  let ?ps = "[\<lparr> p_response = Some ''2+2=4'', p_options = ex_answered_options \<rparr>,
              \<lparr> p_response = Some ''The answer is 4.'', p_options = ex_no_options \<rparr>]"
  have h: "c_previousResponse ex_branched = Val ?ps"
    by (simp add: ex_branched_def)
  have r: "(1::nat) \<noteq> 0" "True"
    by simp_all
  have c: "c_response ex_branched = Some ''Four.''" "c_options ex_branched = ex_answered_options"
          "c_uuid ex_branched = 1002" "c_dateTime ex_branched = 0" "c_prompt ex_branched = ''2+2?''"
    by (simp_all add: ex_branched_def ex_answered_def ex_unanswered_def new_chat_def)
  from response_history_index [OF r h, of 3] response_history_index [OF r h, of 2]
       response_history_index [OF r h, of 0] response_history_index [OF r h, of 1] h
  show ?thesis
    by (simp add: c ex_answered_options_def ex_no_options_def)
qed

subsection \<open>C10: the entries of \<^verbatim>\<open>/chat-history\<close>\<close>

text \<open>
  \<^bold>\<open>C10\<close>. For a known room the listing is the concatenation of the
  entries of its turns. A turn contributes its prompt-side entry exactly when its status is
  not \<open>InversionDeleted\<close>, and its response-side entry exactly when its status
  is not \<open>ResponseDeleted\<close>. The response-side entry carries a usage object
  exactly when the stored completion-token count is defined and not 0, and no usage
  otherwise.
\<close>

theorem chat_history_entries_by_status:
  "(roomId \<noteq> 0 \<and> roomExists \<longrightarrow>
      chat_history roomId roomExists chats = Success (concat (map history_entries chats))) \<and>
   filter h_inversion (history_entries c) =
     (if c_status c \<noteq> InversionDeleted then [prompt_entry c] else []) \<and>
   filter (\<lambda>e. \<not> h_inversion e) (history_entries c) =
     (if c_status c \<noteq> ResponseDeleted
      then [response_entry c (c_response c) (c_options c)] else []) \<and>
   h_usage (response_entry c (c_response c) (c_options c)) =
     (if truthy_num (o_completion_tokens (c_options c))
      then Some \<lparr> v_completion_tokens = o_completion_tokens (c_options c),
                  v_prompt_tokens = num_or_null (o_prompt_tokens (c_options c)),
                  v_total_tokens = num_or_null (o_total_tokens (c_options c)),
                  v_estimated = bool_or_null (o_estimated (c_options c)) \<rparr>
      else None) \<and>
   truthy_num (o_completion_tokens (c_options c)) =
     (\<exists>n. o_completion_tokens (c_options c) = Some n \<and> n \<noteq> 0)"
  by (simp add: chat_history_def history_entries_def prompt_entry_def response_entry_def
        usage_of_options_def num_or_null_def truthy_num_def split: option.splits)

text \<open>
  \<^bold>\<open>C10, witness\<close>. A room with a turn whose response was deleted, one
  whose prompt was deleted, and one without an answer yet.
\<close>

theorem chat_history_entries_by_status_witness:
  "chat_history 1 True [ex_answered \<lparr> c_status := ResponseDeleted \<rparr>,
                        ex_answered \<lparr> c_status := InversionDeleted \<rparr>,
                        ex_unanswered] =
     Success [prompt_entry (ex_answered \<lparr> c_status := ResponseDeleted \<rparr>),
              response_entry (ex_answered \<lparr> c_status := InversionDeleted \<rparr>) (Some ''2+2=4'')
                ex_answered_options,
              prompt_entry ex_unanswered,
              response_entry ex_unanswered None ex_no_options] \<and>
   h_usage (response_entry (ex_answered \<lparr> c_status := InversionDeleted \<rparr>) (Some ''2+2=4'')
                ex_answered_options) =
     Some \<lparr> v_completion_tokens = Some 3, v_prompt_tokens = Some 5, v_total_tokens = Some 8,
            v_estimated = None \<rparr> \<and>
   h_usage (response_entry ex_unanswered None ex_no_options) = None"
proof -
  have h: "(1::nat) \<noteq> 0 \<and> True" by simp
  from chat_history_entries_by_status [of 1 True
         "[ex_answered \<lparr> c_status := ResponseDeleted \<rparr>,
           ex_answered \<lparr> c_status := InversionDeleted \<rparr>, ex_unanswered]"] h
  have "chat_history 1 True [ex_answered \<lparr> c_status := ResponseDeleted \<rparr>,
                        ex_answered \<lparr> c_status := InversionDeleted \<rparr>,
                        ex_unanswered] =
        Success (concat (map history_entries [ex_answered \<lparr> c_status := ResponseDeleted \<rparr>,
                        ex_answered \<lparr> c_status := InversionDeleted \<rparr>,
                        ex_unanswered]))"
    by blast
  then show ?thesis
    by (simp add: history_entries_def ex_answered_def ex_unanswered_def new_chat_def
          response_entry_def usage_of_options_def ex_answered_options_def ex_no_options_def
          truthy_num_def num_or_null_def bool_or_null_def truthy_bool_def)
qed

end
